theory Spec2Isabelle
  imports Complex_Main "HOL-Library.Sublist"
begin

section \<open>Authentication context (src/contexts/AuthContext.tsx)\<close>

text \<open>
  \<^verbatim>\<open>export type UserRole = 'teacher' | 'parent' | 'student'\<close> and the \<^verbatim>\<open>User\<close>
  interface. Optional fields are options; \<^verbatim>\<open>children?: string[]\<close> is an optional list.
\<close>

datatype UserRole = Teacher | Parent | Student

record User =
  id :: string
  name :: string
  role :: UserRole
  email :: string
  avatar :: "string option"
  classId :: "string option"
  subject :: "string option"
  children :: "string list option"
  parentId :: "string option"
  grade :: "string option"

datatype error = RangeError | SyntaxError | QuotaExceededError

text \<open>
  A promise that has settled: after the given number of milliseconds of \<^verbatim>\<open>setTimeout\<close> it
  either resolved with a value or rejected with an error.
\<close>

datatype 'a promise = Resolved nat 'a | Rejected nat error

text \<open>The constant \<^verbatim>\<open>mockUsers: Record<UserRole, User>\<close>.\<close>

definition mockUsers :: "UserRole \<Rightarrow> User" where
  "mockUsers r = (case r of
     Teacher \<Rightarrow> \<lparr> id = ''teacher-1'', name = ''Ms. Sarah Johnson'', role = Teacher,
                  email = ''sarah.johnson@edubridge.com'', avatar = Some ''/api/placeholder/40/40'',
                  classId = Some ''class-5a'', subject = Some ''English & Literature'',
                  children = None, parentId = None, grade = None \<rparr>
   | Parent \<Rightarrow> \<lparr> id = ''parent-1'', name = ''Mr. Raj Sharma'', role = Parent,
                 email = ''raj.sharma@gmail.com'', avatar = Some ''/api/placeholder/40/40'',
                 classId = None, subject = None,
                 children = Some [''student-1''], parentId = None, grade = None \<rparr>
   | Student \<Rightarrow> \<lparr> id = ''student-1'', name = ''Aadhya Sharma'', role = Student,
                  email = ''aadhya.sharma@student.edubridge.com'',
                  avatar = Some ''/api/placeholder/40/40'',
                  classId = None, subject = None,
                  children = None, parentId = Some ''parent-1'', grade = Some ''5th Grade'' \<rparr>)"

subsection \<open>\<^verbatim>\<open>JSON.stringify\<close> on a user\<close>

text \<open>
  The string quoting of \<^verbatim>\<open>JSON.stringify\<close>: the double quote and the backslash are escaped,
  the control characters below 0x20 are written with their short escape or as
  \<^verbatim>\<open>\u00XX\<close>, every other character stands for itself.
\<close>

definition hexdigit :: "nat \<Rightarrow> char" where
  "hexdigit n = ''0123456789abcdef'' ! (n mod 16)"

definition quote_char :: "char \<Rightarrow> string" where
  "quote_char c =
     (if c = CHR 0x22 then [CHR 0x5C, CHR 0x22]
      else if c = CHR 0x5C then [CHR 0x5C, CHR 0x5C]
      else if c = CHR 0x08 then [CHR 0x5C, CHR ''b'']
      else if c = CHR 0x0C then [CHR 0x5C, CHR ''f'']
      else if c = CHR 0x0A then [CHR 0x5C, CHR ''n'']
      else if c = CHR 0x0D then [CHR 0x5C, CHR ''r'']
      else if c = CHR 0x09 then [CHR 0x5C, CHR ''t'']
      else if (of_char c :: nat) < 32
        then [CHR 0x5C, CHR ''u'', CHR ''0'', CHR ''0'',
              hexdigit (of_char c div 16), hexdigit (of_char c)]
      else [c])"

definition quote :: "string \<Rightarrow> string" where
  "quote s = [CHR 0x22] @ concat (map quote_char s) @ [CHR 0x22]"

definition role_str :: "UserRole \<Rightarrow> string" where
  "role_str r = (case r of Teacher \<Rightarrow> ''teacher'' | Parent \<Rightarrow> ''parent'' | Student \<Rightarrow> ''student'')"

fun commas :: "string list \<Rightarrow> string" where
  "commas [] = []"
| "commas [x] = x"
| "commas (x # y # ys) = x @ '','' @ commas (y # ys)"

definition member :: "string \<Rightarrow> string \<Rightarrow> string" where
  "member k v = quote k @ '':'' @ v"

definition opt_member :: "string \<Rightarrow> string option \<Rightarrow> string list" where
  "opt_member k v = (case v of None \<Rightarrow> [] | Some s \<Rightarrow> [member k (quote s)])"

text \<open>
  Members appear in the order the object literals of \<^verbatim>\<open>mockUsers\<close> list them (the order of
  the interface); a member whose value is \<^verbatim>\<open>undefined\<close> is left out.
\<close>

definition JSON_stringify :: "User \<Rightarrow> string" where
  "JSON_stringify u =
     ''{'' @ commas
       ([member ''id'' (quote (id u)), member ''name'' (quote (name u)),
         member ''role'' (quote (role_str (role u))), member ''email'' (quote (email u))]
        @ opt_member ''avatar'' (avatar u)
        @ opt_member ''classId'' (classId u)
        @ opt_member ''subject'' (subject u)
        @ (case children u of None \<Rightarrow> []
           | Some cs \<Rightarrow> [member ''children'' (''['' @ commas (map quote cs) @ '']'')])
        @ opt_member ''parentId'' (parentId u)
        @ opt_member ''grade'' (grade u))
     @ ''}''"

subsection \<open>The provider's state and operations\<close>

text \<open>
  The two \<^verbatim>\<open>useState\<close> cells of \<^verbatim>\<open>AuthProvider\<close> together with the browser's
  \<^verbatim>\<open>localStorage\<close>, a map from keys to strings, which the provider reads and writes.
\<close>

record auth_state =
  user :: "User option"
  loading :: bool
  localStorage :: "string \<rightharpoonup> string"

definition storage_key :: string where
  "storage_key = ''edubridge-user''"

text \<open>\<^verbatim>\<open>useState<User | null>(null)\<close>, \<^verbatim>\<open>useState(true)\<close>, over a given storage.\<close>

definition initial_state :: "(string \<rightharpoonup> string) \<Rightarrow> auth_state" where
  "initial_state ls = \<lparr> user = None, loading = True, localStorage = ls \<rparr>"

text \<open>
  The mount effect. \<^verbatim>\<open>JSON.parse\<close> is the argument \<open>parse\<close>: it throws a SyntaxError
  or returns a value that is stored unchecked as the user (\<^verbatim>\<open>null\<close> is \<open>None\<close>). An
  absent entry and the empty string are falsy. When the parse throws, no setter has run.
  The result pairs the thrown error, if any, with the state afterwards.
\<close>

definition AuthProvider_init ::
  "(string \<Rightarrow> error + User option) \<Rightarrow> auth_state \<Rightarrow> error option \<times> auth_state" where
  "AuthProvider_init parse st =
     (case localStorage st storage_key of
        None \<Rightarrow> (None, st\<lparr>loading := False\<rparr>)
      | Some savedUser \<Rightarrow>
          if savedUser = [] then (None, st\<lparr>loading := False\<rparr>)
          else (case parse savedUser of
                  Inl e \<Rightarrow> (Some e, st)
                | Inr u \<Rightarrow> (None, st\<lparr>user := u, loading := False\<rparr>)))"

text \<open>
  \<^verbatim>\<open>localStorage.setItem\<close>: the browser takes the write, or refuses it (the quota is
  exceeded) and throws. Whether it refuses a key and value is the argument \<open>refuses\<close>;
  \<open>storage_full\<close> is a browser that refuses every write and \<open>storage_free\<close> one that
  takes every write.
\<close>

definition setItem ::
  "(string \<Rightarrow> string \<Rightarrow> bool) \<Rightarrow> (string \<rightharpoonup> string) \<Rightarrow> string \<Rightarrow> string
     \<Rightarrow> error + (string \<rightharpoonup> string)" where
  "setItem refuses ls k v = (if refuses k v then Inl QuotaExceededError else Inr (ls(k \<mapsto> v)))"

definition storage_full :: "string \<Rightarrow> string \<Rightarrow> bool" where
  "storage_full k v = True"

definition storage_free :: "string \<Rightarrow> string \<Rightarrow> bool" where
  "storage_free k v = False"

text \<open>
  \<^verbatim>\<open>login\<close>: \<^verbatim>\<open>setLoading(true)\<close>, a 1000 ms timer, then the user of the role is set and
  saved and loading is cleared. Neither the email nor the password argument is read. The
  call of \<^verbatim>\<open>setItem\<close> is not guarded: when it throws, the promise rejects after the user
  has been set and before loading is cleared. The result is the settled promise and the
  state it leaves.
\<close>

definition login ::
  "(string \<Rightarrow> string \<Rightarrow> bool) \<Rightarrow> string \<Rightarrow> string \<Rightarrow> UserRole \<Rightarrow> auth_state
     \<Rightarrow> unit promise \<times> auth_state" where
  "login refuses email_arg password_arg r st =
     (let st1 = st\<lparr>loading := True\<rparr>;
          mockUser = mockUsers r;
          st2 = st1\<lparr>user := Some mockUser\<rparr>
      in (case setItem refuses (localStorage st2) storage_key (JSON_stringify mockUser) of
            Inl e \<Rightarrow> (Rejected 1000 e, st2)
          | Inr ls \<Rightarrow> (Resolved 1000 (), (st2\<lparr>localStorage := ls\<rparr>)\<lparr>loading := False\<rparr>)))"

definition logout :: "auth_state \<Rightarrow> auth_state" where
  "logout st = (st\<lparr>user := None\<rparr>)\<lparr>localStorage := (localStorage (st\<lparr>user := None\<rparr>))(storage_key := None)\<rparr>"

text \<open>The context value the provider hands down: \<^verbatim>\<open>isAuthenticated: !!user\<close>.\<close>

record auth_context =
  ctx_user :: "User option"
  isAuthenticated :: bool
  ctx_loading :: bool

definition AuthProvider_value :: "auth_state \<Rightarrow> auth_context" where
  "AuthProvider_value st =
     \<lparr> ctx_user = user st, isAuthenticated = (user st \<noteq> None), ctx_loading = loading st \<rparr>"

text \<open>The state a settled \<^verbatim>\<open>login\<close> leaves behind, resolved or rejected.\<close>

definition settled :: "unit promise \<times> auth_state \<Rightarrow> auth_state" where
  "settled p = snd p"

section \<open>Route guards and role-based rendering\<close>

text \<open>
  What a component returns. \<open>Navigate to from\<close> is \<^verbatim>\<open><Navigate to=... replace />\<close> with
  the optional \<^verbatim>\<open>state={{ from: location }}\<close>; \<open>Fragment\<close> wraps children as
  \<^verbatim>\<open><>{children}</>\<close> does; \<open>Routes\<close> carries the table of its \<^verbatim>\<open><Route path element>\<close>
  entries in source order; \<open>ComingSoon\<close> is the inline placeholder with its heading and text.
\<close>

datatype element =
    LoadingSpinner
  | Navigate string "string option"
  | Fragment element
  | Routes "(string \<times> element) list"
  | TeacherDashboard
  | StudentPapers
  | ParentDashboard
  | StudentDashboard
  | ComingSoon string string

text \<open>\<^verbatim>\<open>ProtectedRoute\<close> (src/components/ProtectedRoute.tsx), with \<^verbatim>\<open>useLocation()\<close> as \<open>location\<close>.\<close>

definition roleDashboards :: "UserRole \<Rightarrow> string" where
  "roleDashboards r = (case r of Teacher \<Rightarrow> ''/dashboard'' | Parent \<Rightarrow> ''/dashboard''
                        | Student \<Rightarrow> ''/dashboard'')"

definition ProtectedRoute ::
  "element \<Rightarrow> UserRole list option \<Rightarrow> auth_context \<Rightarrow> string \<Rightarrow> element" where
  "ProtectedRoute childs allowedRoles ctx location =
     (if ctx_loading ctx then LoadingSpinner
      else if \<not> isAuthenticated ctx then Navigate ''/login'' (Some location)
      else (case (allowedRoles, ctx_user ctx) of
              (Some roles, Some u) \<Rightarrow>
                 if role u \<notin> set roles then Navigate (roleDashboards (role u)) None
                 else Fragment childs
            | _ \<Rightarrow> Fragment childs))"

text \<open>\<^verbatim>\<open>DashboardRouter\<close> (src/App.tsx): one route table per role.\<close>

definition DashboardRouter :: "auth_context \<Rightarrow> element" where
  "DashboardRouter ctx =
     (case ctx_user ctx of
        None \<Rightarrow> Navigate ''/login'' None
      | Some u \<Rightarrow>
         (case role u of
            Teacher \<Rightarrow> Routes
              [(''/dashboard'', TeacherDashboard),
               (''/papers'', StudentPapers),
               (''/feedback'', ComingSoon ''AI Feedback Reports''
                  ''Coming soon - Comprehensive AI-powered analytics and insights.''),
               (''/students'', ComingSoon ''Students Management''
                  ''Coming soon - Detailed student profiles and progress tracking.''),
               (''/settings'', ComingSoon ''Settings''
                  ''Coming soon - Customize your teaching preferences.''),
               (''*'', Navigate ''/dashboard'' None)]
          | Parent \<Rightarrow> Routes
              [(''/dashboard'', ParentDashboard),
               (''/progress'', ComingSoon ''Detailed Progress''
                  ''Coming soon - In-depth progress analytics and trends.''),
               (''/messages'', ComingSoon ''Messages''
                  ''Coming soon - Direct communication with teachers.''),
               (''/settings'', ComingSoon ''Settings''
                  ''Coming soon - Manage your account preferences.''),
               (''*'', Navigate ''/dashboard'' None)]
          | Student \<Rightarrow> Routes
              [(''/dashboard'', StudentDashboard),
               (''/my-progress'', ComingSoon ''My Progress''
                  ''Coming soon - Track your learning journey in detail.''),
               (''/assignments'', ComingSoon ''Assignments''
                  ''Coming soon - View and submit your assignments.''),
               (''/settings'', ComingSoon ''Settings''
                  ''Coming soon - Personalize your learning experience.''),
               (''*'', Navigate ''/dashboard'' None)]))"

text \<open>
  What a route table shows at a path written exactly as in the table: the entry with that
  path, otherwise the \<^verbatim>\<open>*\<close> entry. (The router's matching of other spellings of a path is not
  modelled.) Any other element shows as itself.
\<close>

fun match_routes :: "(string \<times> element) list \<Rightarrow> string \<Rightarrow> element option" where
  "match_routes [] path = None"
| "match_routes ((p, e) # rs) path =
     (if p = path then Some e
      else (case match_routes rs path of
              Some e' \<Rightarrow> Some e'
            | None \<Rightarrow> if p = ''*'' then Some e else None))"

definition shown_at :: "element \<Rightarrow> string \<Rightarrow> element option" where
  "shown_at e path = (case e of Routes rs \<Rightarrow> match_routes rs path | _ \<Rightarrow> Some e)"

text \<open>\<^verbatim>\<open>menuItems\<close> and \<^verbatim>\<open>AppSidebar\<close> (src/components/AppSidebar.tsx); icons by name.\<close>

record menu_item =
  title :: string
  url :: string
  icon :: string

definition menuItems :: "UserRole \<Rightarrow> menu_item list" where
  "menuItems r = (case r of
     Teacher \<Rightarrow>
       [\<lparr> title = ''Class Overview'', url = ''/dashboard'', icon = ''BarChart3'' \<rparr>,
        \<lparr> title = ''Student Papers'', url = ''/papers'', icon = ''FileText'' \<rparr>,
        \<lparr> title = ''AI Feedback'', url = ''/feedback'', icon = ''TrendingUp'' \<rparr>,
        \<lparr> title = ''Students'', url = ''/students'', icon = ''Users'' \<rparr>,
        \<lparr> title = ''Settings'', url = ''/settings'', icon = ''Settings'' \<rparr>]
   | Parent \<Rightarrow>
       [\<lparr> title = ''Home'', url = ''/dashboard'', icon = ''Home'' \<rparr>,
        \<lparr> title = ''Progress'', url = ''/progress'', icon = ''TrendingUp'' \<rparr>,
        \<lparr> title = ''Messages'', url = ''/messages'', icon = ''MessageSquare'' \<rparr>,
        \<lparr> title = ''Settings'', url = ''/settings'', icon = ''Settings'' \<rparr>]
   | Student \<Rightarrow>
       [\<lparr> title = ''Dashboard'', url = ''/dashboard'', icon = ''Home'' \<rparr>,
        \<lparr> title = ''My Progress'', url = ''/my-progress'', icon = ''Award'' \<rparr>,
        \<lparr> title = ''Assignments'', url = ''/assignments'', icon = ''BookOpen'' \<rparr>,
        \<lparr> title = ''Settings'', url = ''/settings'', icon = ''Settings'' \<rparr>])"

text \<open>
  The sidebar is \<^verbatim>\<open>null\<close> without a user. Otherwise it shows the role's portal label, the
  navigation entries \<^verbatim>\<open>menuItems[user.role]\<close> in order, and the user's name and email.
\<close>

record sidebar =
  portal :: string
  items :: "menu_item list"
  footer_name :: string
  footer_email :: string

definition AppSidebar :: "auth_context \<Rightarrow> sidebar option" where
  "AppSidebar ctx =
     (case ctx_user ctx of
        None \<Rightarrow> None
      | Some u \<Rightarrow> Some \<lparr> portal = role_str (role u) @ '' Portal'', items = menuItems (role u),
                         footer_name = name u, footer_email = email u \<rparr>)"

section \<open>The login form (src/pages/Login.tsx)\<close>

record toast =
  toast_title :: string
  toast_description :: string
  destructive :: bool

record login_outcome =
  toasts :: "toast list"
  isLoggingIn :: bool
  auth :: auth_state

text \<open>
  \<^verbatim>\<open>handleLogin\<close>: an empty email or password is refused with a toast; otherwise
  \<^verbatim>\<open>login\<close> is awaited inside \<^verbatim>\<open>try\<close>, its rejection is caught with the
  "Login Failed" toast, and \<^verbatim>\<open>finally\<close> clears \<^verbatim>\<open>isLoggingIn\<close>.
\<close>

definition handleLogin ::
  "(string \<Rightarrow> string \<Rightarrow> bool) \<Rightarrow> string \<Rightarrow> string \<Rightarrow> UserRole \<Rightarrow> auth_state
     \<Rightarrow> login_outcome" where
  "handleLogin refuses email_arg password_arg selectedRole st =
     (if email_arg = [] \<or> password_arg = [] then
        \<lparr> toasts = [\<lparr> toast_title = ''Missing Information'',
                       toast_description = ''Please enter both email and password.'',
                       destructive = True \<rparr>],
          isLoggingIn = False, auth = st \<rparr>
      else (case login refuses email_arg password_arg selectedRole st of
              (Resolved d u, st') \<Rightarrow>
                \<lparr> toasts = [\<lparr> toast_title = ''Welcome to EduBridge!'',
                               toast_description =
                                 ''Successfully logged in as '' @ role_str selectedRole @ ''.'',
                               destructive = False \<rparr>],
                  isLoggingIn = False, auth = st' \<rparr>
            | (Rejected d e, st') \<Rightarrow>
                \<lparr> toasts = [\<lparr> toast_title = ''Login Failed'',
                               toast_description =
                                 ''Please check your credentials and try again.'',
                               destructive = True \<rparr>],
                  isLoggingIn = False, auth = st' \<rparr>))"

section \<open>AI feedback (src/pages/teacher/AIFeedback.tsx)\<close>

subsection \<open>Numbers\<close>

text \<open>
  A JavaScript number is an IEEE binary64 value, and each arithmetic operation returns the
  exact result rounded to the nearest such value. That rounding is the argument \<open>fl\<close> of
  the functions below. \<open>binary64_rounding\<close> states the two facts about it that are used:
  a multiple of one half up to \<open>2^52\<close> in size is a binary64 value and is returned
  unchanged, and a result in the normal range is off by at most the fraction \<open>2^-53\<close> of
  its size. \<open>exact\<close> is the rounding that changes nothing.
\<close>

definition binary64_rounding :: "(real \<Rightarrow> real) \<Rightarrow> bool" where
  "binary64_rounding fl \<longleftrightarrow>
     (\<forall>m::int. \<bar>m\<bar> \<le> 2 ^ 53 \<longrightarrow> fl (of_int m / 2) = of_int m / 2)
     \<and> (\<forall>x. 1 / 2 ^ 1022 \<le> \<bar>x\<bar> \<and> \<bar>x\<bar> \<le> 2 ^ 1023 \<longrightarrow> \<bar>fl x - x\<bar> \<le> \<bar>x\<bar> / 2 ^ 53)"

definition exact :: "real \<Rightarrow> real" where
  "exact x = x"

subsection \<open>\<^verbatim>\<open>new Date(t).toISOString()\<close>\<close>

text \<open>
  A time value is a number of milliseconds since the epoch. The calendar date of a day
  number is the proleptic Gregorian one; a date outside \<open>\<plusminus>8.64e15\<close> ms is invalid and
  \<^verbatim>\<open>toISOString\<close> throws a RangeError on it. Years outside 0..9999 are written with a
  sign and six digits.
\<close>

definition digit :: "nat \<Rightarrow> char" where
  "digit n = ''0123456789'' ! (n mod 10)"

fun pad :: "nat \<Rightarrow> nat \<Rightarrow> string" where
  "pad 0 n = []"
| "pad (Suc w) n = pad w (n div 10) @ [digit n]"

definition msPerDay :: int where
  "msPerDay = 86400000"

definition YearMonthDate :: "int \<Rightarrow> int \<times> int \<times> int" where
  "YearMonthDate days =
     (let z = days + 719468;
          era = z div 146097;
          doe = z mod 146097;
          yoe = (doe - doe div 1460 + doe div 36524 - doe div 146096) div 365;
          doy = doe - (365 * yoe + yoe div 4 - yoe div 100);
          mp = (5 * doy + 2) div 153;
          d = doy - (153 * mp + 2) div 5 + 1;
          m = (if mp < 10 then mp + 3 else mp - 9);
          y = yoe + era * 400
      in (if m \<le> 2 then y + 1 else y, m, d))"

definition year_str :: "int \<Rightarrow> string" where
  "year_str y =
     (if 0 \<le> y \<and> y \<le> 9999 then pad 4 (nat y)
      else (if y < 0 then ''-'' else ''+'') @ pad 6 (nat \<bar>y\<bar>))"

definition Date_toISOString :: "int \<Rightarrow> error + string" where
  "Date_toISOString t =
     (if \<bar>t\<bar> > 8640000000000000 then Inl RangeError
      else (case YearMonthDate (t div msPerDay) of (y, m, d) \<Rightarrow>
        let ms = t mod msPerDay in
        Inr (year_str y @ ''-'' @ pad 2 (nat m) @ ''-'' @ pad 2 (nat d) @ ''T''
             @ pad 2 (nat (ms div 3600000)) @ '':'' @ pad 2 (nat (ms div 60000 mod 60))
             @ '':'' @ pad 2 (nat (ms div 1000 mod 60)) @ ''.'' @ pad 3 (nat (ms mod 1000))
             @ ''Z'')))"

text \<open>
  The range of time values, and the clock readings \<^verbatim>\<open>Date.now()\<close> can give for which the
  reading a day earlier is a time value too (every reading but those of the first day of
  the range, in the year -271821).
\<close>

definition valid_time :: "int \<Rightarrow> bool" where
  "valid_time t \<longleftrightarrow> \<bar>t\<bar> \<le> 8640000000000000"

definition clock_ok :: "int \<Rightarrow> bool" where
  "clock_ok now \<longleftrightarrow> valid_time now \<and> valid_time (now - 86400000)"

subsection \<open>Feedback items, the mock fetch and the mock regeneration\<close>

datatype feedback_status = Draft | Final

record FeedbackItem =
  fb_id :: string
  studentName :: string
  fb_subject :: string
  submissionTitle :: string
  aiScore :: int
  strengths :: "string list"
  improvements :: "string list"
  generatedAt :: string
  status :: feedback_status
  tags :: "string list"

text \<open>
  The array literal that \<^verbatim>\<open>fetchFeedback\<close> returns, with the three \<^verbatim>\<open>generatedAt\<close>
  strings as arguments.
\<close>

definition canned_feedback :: "string \<Rightarrow> string \<Rightarrow> string \<Rightarrow> FeedbackItem list" where
  "canned_feedback g1 g2 g3 =
     [\<lparr> fb_id = ''fb-1'', studentName = ''Aadhya Sharma'', fb_subject = ''English'',
        submissionTitle = ''Creative Writing: My Summer'', aiScore = 92,
        strengths = [''Vivid imagery'', ''Strong narrative voice'', ''Excellent structure''],
        improvements = [''Minor grammar corrections'', ''Expand conclusion''],
        generatedAt = g1, status = Final, tags = [''writing'', ''creativity''] \<rparr>,
      \<lparr> fb_id = ''fb-2'', studentName = ''Arjun Patel'', fb_subject = ''Math'',
        submissionTitle = ''Problem Set: Fractions & Ratios'', aiScore = 78,
        strengths = [''Correct methodology'', ''Good logical progression''],
        improvements = [''Improve fraction simplification speed'', ''Show intermediate steps''],
        generatedAt = g2, status = Draft, tags = [''math'', ''practice''] \<rparr>,
      \<lparr> fb_id = ''fb-3'', studentName = ''Diya Singh'', fb_subject = ''Science'',
        submissionTitle = ''Report: Plant Life Cycle'', aiScore = 85,
        strengths = [''Clear explanation'', ''Accurate diagrams''],
        improvements = [''Add sources'', ''Clarify germination stage''],
        generatedAt = g3, status = Final, tags = [''science'', ''report''] \<rparr>]"

text \<open>
  \<^verbatim>\<open>fetchFeedback\<close> waits 600 ms and builds the array. Each entry reads the clock with its
  own \<^verbatim>\<open>Date.now()\<close>: \<open>now1\<close>, \<open>now2\<close> and \<open>now3\<close> are the three readings, in order. A
  RangeError thrown by \<^verbatim>\<open>toISOString\<close> rejects the promise.
\<close>

definition fetchFeedback :: "int \<Rightarrow> int \<Rightarrow> int \<Rightarrow> FeedbackItem list promise" where
  "fetchFeedback now1 now2 now3 =
     (case Date_toISOString (now1 - 1000 * 60 * 60) of
        Inl e \<Rightarrow> Rejected 600 e
      | Inr g1 \<Rightarrow>
     (case Date_toISOString (now2 - 1000 * 60 * 60 * 5) of
        Inl e \<Rightarrow> Rejected 600 e
      | Inr g2 \<Rightarrow>
     (case Date_toISOString (now3 - 1000 * 60 * 60 * 24) of
        Inl e \<Rightarrow> Rejected 600 e
      | Inr g3 \<Rightarrow> Resolved 600 (canned_feedback g1 g2 g3))))"

text \<open>
  \<^verbatim>\<open>regenerateFeedback\<close> waits 900 ms; \<open>rnd\<close> is the value of \<^verbatim>\<open>Math.random()\<close> and
  \<open>now\<close> the clock reading of \<^verbatim>\<open>new Date()\<close>. The product and the sum are rounded.
\<close>

record regen_result =
  r_id :: string
  newScore :: int
  timestamp :: string

definition regenerateFeedback ::
  "(real \<Rightarrow> real) \<Rightarrow> string \<Rightarrow> real \<Rightarrow> int \<Rightarrow> regen_result promise" where
  "regenerateFeedback fl ident rnd now =
     (case Date_toISOString now of
        Inl e \<Rightarrow> Rejected 900 e
      | Inr ts \<Rightarrow> Resolved 900 \<lparr> r_id = ident, newScore = \<lfloor>fl (75 + fl (rnd * 20))\<rfloor>,
                                  timestamp = ts \<rparr>)"

text \<open>
  The updater that \<^verbatim>\<open>onSuccess\<close> passes to \<^verbatim>\<open>setQueryData\<close>; the cached list is
  absent (\<open>None\<close>) before the first fetch.
\<close>

definition onSuccess_update :: "regen_result \<Rightarrow> FeedbackItem list option \<Rightarrow> FeedbackItem list option" where
  "onSuccess_update result old =
     (case old of
        None \<Rightarrow> None
      | Some xs \<Rightarrow> Some (map (\<lambda>item. if fb_id item = r_id result
                                      then item\<lparr>aiScore := newScore result,
                                                generatedAt := timestamp result,
                                                status := Draft\<rparr>
                                      else item) xs))"

text \<open>
  \<^verbatim>\<open>regenMutation.mutate(id)\<close>: the mutation function runs, then \<^verbatim>\<open>onSuccess\<close> on a
  resolved promise or \<^verbatim>\<open>onError\<close> on a rejected one. The result is the cache and the toast.
\<close>

definition regenMutation_mutate ::
  "(real \<Rightarrow> real) \<Rightarrow> string \<Rightarrow> real \<Rightarrow> int \<Rightarrow> FeedbackItem list option
     \<Rightarrow> FeedbackItem list option \<times> toast" where
  "regenMutation_mutate fl ident rnd now cache =
     (case regenerateFeedback fl ident rnd now of
        Resolved d result \<Rightarrow>
          (onSuccess_update result cache,
           \<lparr> toast_title = ''Feedback regenerated'',
             toast_description = ''AI provided an updated analysis.'', destructive = False \<rparr>)
      | Rejected d e \<Rightarrow>
          (cache,
           \<lparr> toast_title = ''Regeneration failed'',
             toast_description = ''Please try again shortly.'', destructive = True \<rparr>))"

subsection \<open>The summary cards\<close>

text \<open>\<^verbatim>\<open>Math.round\<close> rounds to the nearest integer, a half upwards.\<close>

definition Math_round :: "real \<Rightarrow> int" where
  "Math_round x = \<lfloor>x + 1 / 2\<rfloor>"

record summary_cards =
  avgScore :: int
  total :: int
  drafts :: int
  finals :: int

text \<open>
  The memoised \<^verbatim>\<open>summary\<close>. The scores are whole numbers; each addition of the
  \<^verbatim>\<open>reduce\<close> and the division by \<^verbatim>\<open>total\<close> are rounded.
\<close>

definition summary :: "(real \<Rightarrow> real) \<Rightarrow> FeedbackItem list option \<Rightarrow> summary_cards" where
  "summary fl data =
     (case data of
        None \<Rightarrow> \<lparr> avgScore = 0, total = 0, drafts = 0, finals = 0 \<rparr>
      | Some xs \<Rightarrow>
          if length xs = 0 then \<lparr> avgScore = 0, total = 0, drafts = 0, finals = 0 \<rparr>
          else
            let total = int (length xs);
                avgScore = Math_round
                  (fl (foldl (\<lambda>a b. fl (a + real_of_int (aiScore b))) 0 xs / real_of_int total));
                drafts = int (length (filter (\<lambda>i. status i = Draft) xs));
                finals = total - drafts
            in \<lparr> avgScore = avgScore, total = total, drafts = drafts, finals = finals \<rparr>)"

section \<open>Student papers (src/pages/teacher/StudentPapers.tsx)\<close>

record paper =
  paper_id :: nat
  paper_studentName :: string
  paper_subject :: string
  uploadDate :: string
  paper_status :: string
  paper_aiScore :: "int option"
  grammarScore :: "int option"
  creativityScore :: "int option"
  handwritingScore :: "int option"
  feedback :: "string option"

definition mockPapers :: "paper list" where
  "mockPapers =
     [\<lparr> paper_id = 1, paper_studentName = ''Aadhya Sharma'', paper_subject = ''English Essay'',
        uploadDate = ''2024-01-20'', paper_status = ''reviewed'', paper_aiScore = Some 92,
        grammarScore = Some 88, creativityScore = Some 95, handwritingScore = Some 85,
        feedback = Some
          ''Excellent creative expression with minor grammar improvements needed.'' \<rparr>,
      \<lparr> paper_id = 2, paper_studentName = ''Arjun Patel'', paper_subject = ''Math Problem Set'',
        uploadDate = ''2024-01-19'', paper_status = ''pending'', paper_aiScore = None,
        grammarScore = None, creativityScore = None, handwritingScore = None,
        feedback = None \<rparr>,
      \<lparr> paper_id = 3, paper_studentName = ''Diya Singh'', paper_subject = ''Science Report'',
        uploadDate = ''2024-01-18'', paper_status = ''in-progress'', paper_aiScore = Some 87,
        grammarScore = Some 90, creativityScore = Some 82, handwritingScore = Some 89,
        feedback = Some ''Good scientific reasoning, work on conclusion clarity.'' \<rparr>]"

text \<open>
  Strings are byte strings. \<^verbatim>\<open>toLowerCase\<close> maps A..Z to a..z and leaves every other byte
  as it is; \<^verbatim>\<open>includes\<close> is the search for a contiguous occurrence, true for the empty
  needle.
\<close>

definition lower_char :: "char \<Rightarrow> char" where
  "lower_char c = (let n = (of_char c :: nat) in if 65 \<le> n \<and> n \<le> 90 then char_of (n + 32) else c)"

definition toLowerCase :: "string \<Rightarrow> string" where
  "toLowerCase s = map lower_char s"

fun String_includes :: "string \<Rightarrow> string \<Rightarrow> bool" where
  "String_includes [] needle = (needle = [])"
| "String_includes (c # cs) needle = (prefix needle (c # cs) \<or> String_includes cs needle)"

definition filteredPapers :: "string \<Rightarrow> string \<Rightarrow> paper list" where
  "filteredPapers searchTerm statusFilter =
     filter (\<lambda>paper.
        let matchesSearch =
              (String_includes (toLowerCase (paper_studentName paper)) (toLowerCase searchTerm)
               \<or> String_includes (toLowerCase (paper_subject paper)) (toLowerCase searchTerm));
            matchesStatus = (statusFilter = ''all'' \<or> paper_status paper = statusFilter)
        in matchesSearch \<and> matchesStatus) mockPapers"

section \<open>Properties\<close>

subsection \<open>Logging in\<close>

lemma login_state:
  "settled (login refuses em pw r st) =
     (if refuses storage_key (JSON_stringify (mockUsers r))
      then st\<lparr>loading := True, user := Some (mockUsers r)\<rparr>
      else st\<lparr>loading := False, user := Some (mockUsers r),
              localStorage := (localStorage st)(storage_key \<mapsto> JSON_stringify (mockUsers r))\<rparr>)"
  by (simp add: login_def settled_def setItem_def Let_def)

lemma login_promise:
  "fst (login refuses em pw r st) =
     (if refuses storage_key (JSON_stringify (mockUsers r))
      then Rejected 1000 QuotaExceededError else Resolved 1000 ())"
  by (simp add: login_def setItem_def Let_def)

text \<open>
  C1, as stated, fails: when the browser refuses the write to \<^verbatim>\<open>localStorage\<close>, the
  \<^verbatim>\<open>login\<close> of the demo teacher does not resolve but rejects.
\<close>

theorem login_rejects_counterexample:
  "fst (login storage_full ''teacher@demo.com'' ''demo123'' Teacher
         \<lparr> user = None, loading = False, localStorage = Map.empty \<rparr>)
     = Rejected 1000 QuotaExceededError"
  by (simp add: login_promise storage_full_def)

text \<open>
  C1, amended: for every email, password and role, \<^verbatim>\<open>login\<close> sets the current user to
  \<^verbatim>\<open>mockUsers[role]\<close> and \<^verbatim>\<open>isAuthenticated\<close> becomes true; the email and the password
  have no effect on the outcome, which depends on the role alone. The promise resolves
  after 1000 ms when the browser takes the write of the saved user, and rejects after
  1000 ms with the storage error when it refuses it.
\<close>

theorem login_sets_mock_user:
  "user (settled (login refuses em pw r st)) = Some (mockUsers r)
   \<and> ctx_user (AuthProvider_value (settled (login refuses em pw r st))) = Some (mockUsers r)
   \<and> isAuthenticated (AuthProvider_value (settled (login refuses em pw r st)))
   \<and> login refuses em' pw' r st = login refuses em pw r st
   \<and> fst (login refuses em pw r st) =
       (if refuses ''edubridge-user'' (JSON_stringify (mockUsers r))
        then Rejected 1000 QuotaExceededError else Resolved 1000 ())"
  by (simp add: login_state login_promise AuthProvider_value_def storage_key_def)
     (simp add: login_def)

subsection \<open>Logging out and the storage footprint\<close>

lemma map_upd_absent: "m k = None \<Longrightarrow> m(k := None) = m"
  by (rule ext) simp

text \<open>
  C10: from every state \<^verbatim>\<open>logout\<close> gives the logged-out state: no user,
  \<^verbatim>\<open>isAuthenticated\<close> false, no saved \<^verbatim>\<open>edubridge-user\<close> entry. From a logged-out state,
  \<^verbatim>\<open>login\<close> with any arguments followed by \<^verbatim>\<open>logout\<close> gives back the user, the
  authentication flag and the storage it started from, whether the login resolved or
  rejected. When that state was not loading (as it is once the provider has mounted), the
  very same state comes back after a login that resolved; after a login that rejected
  only \<^verbatim>\<open>loading\<close> differs, which the rejected login left set.
\<close>

theorem logout_round_trip:
  "user (logout st) = None
   \<and> \<not> isAuthenticated (AuthProvider_value (logout st))
   \<and> localStorage (logout st) ''edubridge-user'' = None
   \<and> (user st = None \<and> localStorage st ''edubridge-user'' = None \<longrightarrow>
        user (logout (settled (login refuses em pw r st))) = user st
      \<and> isAuthenticated (AuthProvider_value (logout (settled (login refuses em pw r st))))
          = isAuthenticated (AuthProvider_value st)
      \<and> localStorage (logout (settled (login refuses em pw r st))) = localStorage st)
   \<and> (user st = None \<and> localStorage st ''edubridge-user'' = None \<and> \<not> loading st
        \<and> \<not> refuses ''edubridge-user'' (JSON_stringify (mockUsers r)) \<longrightarrow>
        logout (settled (login refuses em pw r st)) = st)
   \<and> (user st = None \<and> localStorage st ''edubridge-user'' = None \<and> \<not> loading st
        \<and> refuses ''edubridge-user'' (JSON_stringify (mockUsers r)) \<longrightarrow>
        logout (settled (login refuses em pw r st)) = st\<lparr>loading := True\<rparr>)"
  by (cases st)
     (simp add: logout_def login_state AuthProvider_value_def storage_key_def map_upd_absent)

theorem logout_round_trip_witness:
  "logout (settled (login storage_free ''teacher@demo.com'' ''demo123'' Teacher
                \<lparr> user = None, loading = False, localStorage = Map.empty \<rparr>))
     = \<lparr> user = None, loading = False, localStorage = Map.empty \<rparr>
   \<and> logout (settled (login storage_full ''teacher@demo.com'' ''demo123'' Teacher
                \<lparr> user = None, loading = False, localStorage = Map.empty \<rparr>))
     = \<lparr> user = None, loading = True, localStorage = Map.empty \<rparr>"
  using logout_round_trip [of "\<lparr> user = None, loading = False, localStorage = Map.empty \<rparr>"
                             storage_free "''teacher@demo.com''" "''demo123''" Teacher]
        logout_round_trip [of "\<lparr> user = None, loading = False, localStorage = Map.empty \<rparr>"
                             storage_full "''teacher@demo.com''" "''demo123''" Teacher]
  by (simp add: storage_free_def storage_full_def)

text \<open>
  C6, as stated, fails: after a login from an empty storage, in a browser that takes the
  write, \<^verbatim>\<open>localStorage\<close> holds the serialised user under \<^verbatim>\<open>edubridge-user\<close>.
\<close>

theorem login_persists_counterexample:
  "localStorage \<lparr> user = None, loading = False, localStorage = Map.empty \<rparr> ''edubridge-user''
     = None
   \<and> localStorage (settled
        (login storage_free ''teacher@demo.com'' ''demo123'' Teacher
           \<lparr> user = None, loading = False, localStorage = Map.empty \<rparr>)) ''edubridge-user''
     = Some (JSON_stringify (mockUsers Teacher))"
  by (simp add: login_state storage_key_def storage_free_def)

text \<open>
  C6, amended: \<^verbatim>\<open>login\<close>, \<^verbatim>\<open>logout\<close> and the provider's initialisation keep state
  outside the in-memory user value in one place, the \<^verbatim>\<open>localStorage\<close> entry
  \<^verbatim>\<open>edubridge-user\<close>. \<^verbatim>\<open>login\<close> writes the serialised \<^verbatim>\<open>mockUsers[role]\<close> under that
  key and leaves every other key as it was (and leaves the whole storage as it was when
  the browser refuses the write), \<^verbatim>\<open>logout\<close> removes that key and nothing else, and the
  initialisation leaves the storage as it found it.
\<close>

theorem storage_footprint:
  "localStorage (settled (login refuses em pw r st))
     = (if refuses ''edubridge-user'' (JSON_stringify (mockUsers r)) then localStorage st
        else (localStorage st)(''edubridge-user'' \<mapsto> JSON_stringify (mockUsers r)))
   \<and> localStorage (logout st) = (localStorage st)(''edubridge-user'' := None)
   \<and> localStorage (snd (AuthProvider_init parse st)) = localStorage st"
  by (simp add: login_state storage_key_def logout_def AuthProvider_init_def
        split: option.splits sum.splits)

subsection \<open>Route guard and role-based rendering\<close>

lemma ProtectedRoute_loaded:
  "\<not> loading st \<Longrightarrow>
     ProtectedRoute c allowedRoles (AuthProvider_value st) loc =
       (case user st of
          None \<Rightarrow> Navigate ''/login'' (Some loc)
        | Some u \<Rightarrow>
           (case allowedRoles of
              None \<Rightarrow> Fragment c
            | Some roles \<Rightarrow> if role u \<in> set roles then Fragment c
                            else Navigate ''/dashboard'' None))"
  by (simp add: ProtectedRoute_def AuthProvider_value_def roleDashboards_def
        split: option.splits UserRole.splits)

lemma ProtectedRoute_children_iff:
  "ProtectedRoute c allowedRoles (AuthProvider_value st) loc = Fragment c
     \<longleftrightarrow> \<not> loading st
         \<and> (\<exists>u. user st = Some u
              \<and> (allowedRoles = None
                 \<or> (\<exists>roles. allowedRoles = Some roles \<and> role u \<in> set roles)))"
  by (simp add: ProtectedRoute_def AuthProvider_value_def roleDashboards_def
        split: option.splits UserRole.splits)

text \<open>
  C2: once loading is finished, \<^verbatim>\<open>ProtectedRoute\<close> redirects to \<^verbatim>\<open>/login\<close> when no user
  is authenticated, redirects to \<^verbatim>\<open>/dashboard\<close> when \<^verbatim>\<open>allowedRoles\<close> is given and lacks
  the user's role, and renders its children otherwise; the children are rendered exactly
  when loading is finished, a user is authenticated and the role is allowed or no
  \<^verbatim>\<open>allowedRoles\<close> is given.
\<close>

theorem ProtectedRoute_guard:
  "(\<not> loading st \<longrightarrow>
      ProtectedRoute c allowedRoles (AuthProvider_value st) loc =
        (case user st of
           None \<Rightarrow> Navigate ''/login'' (Some loc)
         | Some u \<Rightarrow>
            (case allowedRoles of
               None \<Rightarrow> Fragment c
             | Some roles \<Rightarrow> if role u \<in> set roles then Fragment c
                             else Navigate ''/dashboard'' None)))
   \<and> (ProtectedRoute c allowedRoles (AuthProvider_value st) loc = Fragment c
        \<longleftrightarrow> \<not> loading st
            \<and> (\<exists>u. user st = Some u
                 \<and> (allowedRoles = None
                    \<or> (\<exists>roles. allowedRoles = Some roles \<and> role u \<in> set roles))))"
proof (intro conjI impI)
  assume "\<not> loading st"
  then show "ProtectedRoute c allowedRoles (AuthProvider_value st) loc =
        (case user st of
           None \<Rightarrow> Navigate ''/login'' (Some loc)
         | Some u \<Rightarrow>
            (case allowedRoles of
               None \<Rightarrow> Fragment c
             | Some roles \<Rightarrow> if role u \<in> set roles then Fragment c
                             else Navigate ''/dashboard'' None))"
    by (rule ProtectedRoute_loaded)
next
  show "ProtectedRoute c allowedRoles (AuthProvider_value st) loc = Fragment c
        \<longleftrightarrow> \<not> loading st
            \<and> (\<exists>u. user st = Some u
                 \<and> (allowedRoles = None
                    \<or> (\<exists>roles. allowedRoles = Some roles \<and> role u \<in> set roles)))"
    by (rule ProtectedRoute_children_iff)
qed

theorem ProtectedRoute_guard_witness:
  "ProtectedRoute TeacherDashboard (Some [Parent, Student])
      (AuthProvider_value \<lparr> user = Some (mockUsers Teacher), loading = False,
                            localStorage = Map.empty \<rparr>) ''/papers''
     = Navigate ''/dashboard'' None"
proof -
  let ?st = "\<lparr> user = Some (mockUsers Teacher), loading = False, localStorage = Map.empty \<rparr>"
  have l: "\<not> loading ?st" by simp
  have r: "role (mockUsers Teacher) = Teacher" by (simp add: mockUsers_def)
  from ProtectedRoute_guard [of ?st TeacherDashboard "Some [Parent, Student]" "''/papers''"] l
  have "ProtectedRoute TeacherDashboard (Some [Parent, Student]) (AuthProvider_value ?st)
          ''/papers''
        = (case user ?st of
           None \<Rightarrow> Navigate ''/login'' (Some ''/papers'')
         | Some u \<Rightarrow>
            (case Some [Parent, Student] of
               None \<Rightarrow> Fragment TeacherDashboard
             | Some roles \<Rightarrow> if role u \<in> set roles then Fragment TeacherDashboard
                             else Navigate ''/dashboard'' None))"
    by blast
  then show ?thesis by (simp add: r)
qed


lemma router_dashboard:
  "ctx_user ctx = Some u \<Longrightarrow>
      shown_at (DashboardRouter ctx) ''/dashboard''
        = Some (case role u of Teacher \<Rightarrow> TeacherDashboard | Parent \<Rightarrow> ParentDashboard
                | Student \<Rightarrow> StudentDashboard)"
  by (cases "role u") (simp_all add: DashboardRouter_def shown_at_def)

lemma router_role_only:
  "ctx_user ctx = Some u \<Longrightarrow> ctx_user ctx' = Some u' \<Longrightarrow> role u' = role u \<Longrightarrow>
     DashboardRouter ctx' = DashboardRouter ctx"
  by (simp add: DashboardRouter_def)

lemma sidebar_items:
  "ctx_user ctx = Some u \<Longrightarrow> map_option items (AppSidebar ctx) = Some (menuItems (role u))"
  by (simp add: AppSidebar_def)

lemma menu_tables:
  "length (menuItems Teacher) = 5" "length (menuItems Parent) = 4"
  "length (menuItems Student) = 4"
  "map title (menuItems Teacher)
        = [''Class Overview'', ''Student Papers'', ''AI Feedback'', ''Students'', ''Settings'']"
  "map title (menuItems Parent) = [''Home'', ''Progress'', ''Messages'', ''Settings'']"
  "map title (menuItems Student)
        = [''Dashboard'', ''My Progress'', ''Assignments'', ''Settings'']"
  by (simp_all add: menuItems_def)

text \<open>
  C3: for an authenticated user the dashboard shown at \<^verbatim>\<open>/dashboard\<close> and the sidebar's
  menu depend on the role alone: teacher gives TeacherDashboard and the five teacher
  entries, parent gives ParentDashboard and the four parent entries, student gives
  StudentDashboard and the four student entries. Without a user \<^verbatim>\<open>DashboardRouter\<close>
  redirects to \<^verbatim>\<open>/login\<close>.
\<close>

theorem role_selects_dashboard_and_menu:
  "(ctx_user ctx = Some u \<longrightarrow>
      shown_at (DashboardRouter ctx) ''/dashboard''
        = Some (case role u of Teacher \<Rightarrow> TeacherDashboard | Parent \<Rightarrow> ParentDashboard
                | Student \<Rightarrow> StudentDashboard)
    \<and> map_option items (AppSidebar ctx) = Some (menuItems (role u))
    \<and> (\<forall>ctx' u'. ctx_user ctx' = Some u' \<and> role u' = role u \<longrightarrow>
          DashboardRouter ctx' = DashboardRouter ctx
        \<and> map_option items (AppSidebar ctx') = map_option items (AppSidebar ctx)))
   \<and> length (menuItems Teacher) = 5 \<and> length (menuItems Parent) = 4
   \<and> length (menuItems Student) = 4
   \<and> (ctx_user ctx = None \<longrightarrow> DashboardRouter ctx = Navigate ''/login'' None)"
proof (intro conjI impI allI)
  assume "ctx_user ctx = None"
  then show "DashboardRouter ctx = Navigate ''/login'' None"
    by (simp add: DashboardRouter_def)
next
  assume c: "ctx_user ctx = Some u"
  show "shown_at (DashboardRouter ctx) ''/dashboard''
        = Some (case role u of Teacher \<Rightarrow> TeacherDashboard | Parent \<Rightarrow> ParentDashboard
                | Student \<Rightarrow> StudentDashboard)"
    by (rule router_dashboard [OF c])
  show "map_option items (AppSidebar ctx) = Some (menuItems (role u))"
    by (rule sidebar_items [OF c])
  fix ctx' :: auth_context and u' :: User
  assume "ctx_user ctx' = Some u' \<and> role u' = role u"
  then have c': "ctx_user ctx' = Some u'" and r: "role u' = role u" by (rule conjunct1, rule conjunct2)
  show "DashboardRouter ctx' = DashboardRouter ctx"
    by (rule router_role_only [OF c c' r])
  show "map_option items (AppSidebar ctx') = map_option items (AppSidebar ctx)"
    by (simp only: sidebar_items [OF c] sidebar_items [OF c'] r)
qed (rule menu_tables)+


theorem role_selects_dashboard_and_menu_witness:
  "shown_at (DashboardRouter (AuthProvider_value
        \<lparr> user = Some (mockUsers Parent), loading = False, localStorage = Map.empty \<rparr>))
      ''/dashboard'' = Some ParentDashboard
   \<and> map_option items (AppSidebar (AuthProvider_value
        \<lparr> user = Some (mockUsers Parent), loading = False, localStorage = Map.empty \<rparr>))
      = Some (menuItems Parent)
   \<and> DashboardRouter (AuthProvider_value
        \<lparr> user = None, loading = False, localStorage = Map.empty \<rparr>)
      = Navigate ''/login'' None"
proof -
  let ?p = "AuthProvider_value
        \<lparr> user = Some (mockUsers Parent), loading = False, localStorage = Map.empty \<rparr>"
  let ?n = "AuthProvider_value \<lparr> user = None, loading = False, localStorage = Map.empty \<rparr>"
  have r: "role (mockUsers Parent) = Parent" by (simp add: mockUsers_def)
  have a: "ctx_user ?p = Some (mockUsers Parent)" by (simp add: AuthProvider_value_def)
  have b: "ctx_user ?n = None"
    by (simp add: AuthProvider_value_def)
  from role_selects_dashboard_and_menu [of ?p "mockUsers Parent"] a
  have "shown_at (DashboardRouter ?p) ''/dashboard''
        = Some (case role (mockUsers Parent) of Teacher \<Rightarrow> TeacherDashboard
                | Parent \<Rightarrow> ParentDashboard | Student \<Rightarrow> StudentDashboard)
      \<and> map_option items (AppSidebar ?p) = Some (menuItems (role (mockUsers Parent)))"
    by blast
  then have 1: "shown_at (DashboardRouter ?p) ''/dashboard'' = Some ParentDashboard
      \<and> map_option items (AppSidebar ?p) = Some (menuItems Parent)"
    by (simp only: r UserRole.case)
  from role_selects_dashboard_and_menu [of ?n] b
  have 2: "DashboardRouter ?n = Navigate ''/login'' None"
    by blast
  from 1 2 show ?thesis by (intro conjI) (rule conjunct1, assumption, rule conjunct2, assumption)
qed


subsection \<open>The mock fetch\<close>


lemma toISOString_valid: "valid_time t \<Longrightarrow> \<exists>s. Date_toISOString t = Inr s"
  by (simp add: Date_toISOString_def valid_time_def Let_def split: prod.splits)

lemma clock_ok_offsets:
  assumes "clock_ok n"
  shows "valid_time (n - 1000 * 60 * 60)" "valid_time (n - 1000 * 60 * 60 * 5)"
    "valid_time (n - 1000 * 60 * 60 * 24)"
  using assms by (simp_all add: clock_ok_def valid_time_def abs_le_iff)

lemma fetchFeedback_resolved:
  assumes "Date_toISOString (now1 - 1000 * 60 * 60) = Inr g1"
    and "Date_toISOString (now2 - 1000 * 60 * 60 * 5) = Inr g2"
    and "Date_toISOString (now3 - 1000 * 60 * 60 * 24) = Inr g3"
  shows "fetchFeedback now1 now2 now3 = Resolved 600 (canned_feedback g1 g2 g3)"
  unfolding fetchFeedback_def by (simp only: assms sum.case)

lemma fetchFeedback_clock_ok:
  assumes "clock_ok n1" "clock_ok n2" "clock_ok n3"
  shows "\<exists>g1 g2 g3. fetchFeedback n1 n2 n3 = Resolved 600 (canned_feedback g1 g2 g3)
           \<and> Date_toISOString (n1 - 3600000) = Inr g1
           \<and> Date_toISOString (n2 - 18000000) = Inr g2
           \<and> Date_toISOString (n3 - 86400000) = Inr g3"
proof -
  obtain g1 where g1: "Date_toISOString (n1 - 1000 * 60 * 60) = Inr g1"
    using toISOString_valid [OF clock_ok_offsets(1) [OF assms(1)]] ..
  obtain g2 where g2: "Date_toISOString (n2 - 1000 * 60 * 60 * 5) = Inr g2"
    using toISOString_valid [OF clock_ok_offsets(2) [OF assms(2)]] ..
  obtain g3 where g3: "Date_toISOString (n3 - 1000 * 60 * 60 * 24) = Inr g3"
    using toISOString_valid [OF clock_ok_offsets(3) [OF assms(3)]] ..
  have e: "n1 - 1000 * 60 * 60 = n1 - 3600000" "n2 - 1000 * 60 * 60 * 5 = n2 - 18000000"
    "n3 - 1000 * 60 * 60 * 24 = n3 - 86400000" by simp_all
  from fetchFeedback_resolved [OF g1 g2 g3] g1 g2 g3 show ?thesis
    unfolding e by blast
qed

lemma canned_feedback_fields:
  "length (canned_feedback g1 g2 g3) = 3"
  "map fb_id (canned_feedback g1 g2 g3) = [''fb-1'', ''fb-2'', ''fb-3'']"
  "map studentName (canned_feedback g1 g2 g3)
     = [''Aadhya Sharma'', ''Arjun Patel'', ''Diya Singh'']"
  "map aiScore (canned_feedback g1 g2 g3) = [92, 78, 85]"
  "map generatedAt (canned_feedback g1 g2 g3) = [g1, g2, g3]"
  by (simp_all add: canned_feedback_def)

lemma canned_feedback_erase:
  "map (\<lambda>i. i\<lparr>generatedAt := []\<rparr>) (canned_feedback g1 g2 g3) = canned_feedback [] [] []"
  by (simp add: canned_feedback_def)

text \<open>
  C4, as stated, fails: two calls one second apart return lists that differ (in their
  \<^verbatim>\<open>generatedAt\<close> fields, which are computed from the clock).
\<close>

theorem fetchFeedback_clock_counterexample:
  "fetchFeedback 1700000000000 1700000000000 1700000000000
     \<noteq> fetchFeedback 1700000001000 1700000001000 1700000001000"
  by code_simp

text \<open>
  C4, amended: \<^verbatim>\<open>fetchFeedback\<close> takes no argument but reads the clock. Every call
  resolves after 600 ms with exactly three entries, with ids fb-1, fb-2, fb-3, for Aadhya
  Sharma, Arjun Patel and Diya Singh, with aiScores 92, 78, 85; \<^verbatim>\<open>generatedAt\<close> is the
  ISO form of the clock reading minus 1, 5 and 24 hours. Any two calls return lists that
  are equal in every field but \<^verbatim>\<open>generatedAt\<close>, and equal altogether when the clock
  readings are the same.
\<close>

theorem fetchFeedback_canned:
  "clock_ok n1 \<and> clock_ok n2 \<and> clock_ok n3 \<and> clock_ok m1 \<and> clock_ok m2 \<and> clock_ok m3 \<longrightarrow>
     (\<exists>xs ys. fetchFeedback n1 n2 n3 = Resolved 600 xs
        \<and> fetchFeedback m1 m2 m3 = Resolved 600 ys
        \<and> length xs = 3
        \<and> map fb_id xs = [''fb-1'', ''fb-2'', ''fb-3'']
        \<and> map studentName xs = [''Aadhya Sharma'', ''Arjun Patel'', ''Diya Singh'']
        \<and> map aiScore xs = [92, 78, 85]
        \<and> map (\<lambda>i. Inr (generatedAt i)) xs
            = [Date_toISOString (n1 - 3600000), Date_toISOString (n2 - 18000000),
               Date_toISOString (n3 - 86400000)]
        \<and> map (\<lambda>i. i\<lparr>generatedAt := []\<rparr>) xs = map (\<lambda>i. i\<lparr>generatedAt := []\<rparr>) ys
        \<and> (n1 = m1 \<and> n2 = m2 \<and> n3 = m3 \<longrightarrow> xs = ys))"
proof
  assume a: "clock_ok n1 \<and> clock_ok n2 \<and> clock_ok n3 \<and> clock_ok m1 \<and> clock_ok m2 \<and> clock_ok m3"
  then have n: "clock_ok n1" "clock_ok n2" "clock_ok n3"
    and m: "clock_ok m1" "clock_ok m2" "clock_ok m3" by simp_all
  obtain g1 g2 g3 where g: "fetchFeedback n1 n2 n3 = Resolved 600 (canned_feedback g1 g2 g3)"
      "Date_toISOString (n1 - 3600000) = Inr g1" "Date_toISOString (n2 - 18000000) = Inr g2"
      "Date_toISOString (n3 - 86400000) = Inr g3"
    using fetchFeedback_clock_ok [OF n] by blast
  obtain h1 h2 h3 where h: "fetchFeedback m1 m2 m3 = Resolved 600 (canned_feedback h1 h2 h3)"
    using fetchFeedback_clock_ok [OF m] by blast
  let ?xs = "canned_feedback g1 g2 g3" and ?ys = "canned_feedback h1 h2 h3"
  have 1: "map (\<lambda>i. Inr (generatedAt i)) ?xs
            = [Date_toISOString (n1 - 3600000), Date_toISOString (n2 - 18000000),
               Date_toISOString (n3 - 86400000)]"
    using canned_feedback_fields(5) [of g1 g2 g3] g(2-4)
    by (simp add: canned_feedback_def)
  have 2: "map (\<lambda>i. i\<lparr>generatedAt := []\<rparr>) ?xs = map (\<lambda>i. i\<lparr>generatedAt := []\<rparr>) ?ys"
    by (simp only: canned_feedback_erase)
  have 3: "n1 = m1 \<and> n2 = m2 \<and> n3 = m3 \<longrightarrow> ?xs = ?ys"
    using g(1) h by auto
  show "\<exists>xs ys. fetchFeedback n1 n2 n3 = Resolved 600 xs
        \<and> fetchFeedback m1 m2 m3 = Resolved 600 ys
        \<and> length xs = 3
        \<and> map fb_id xs = [''fb-1'', ''fb-2'', ''fb-3'']
        \<and> map studentName xs = [''Aadhya Sharma'', ''Arjun Patel'', ''Diya Singh'']
        \<and> map aiScore xs = [92, 78, 85]
        \<and> map (\<lambda>i. Inr (generatedAt i)) xs
            = [Date_toISOString (n1 - 3600000), Date_toISOString (n2 - 18000000),
               Date_toISOString (n3 - 86400000)]
        \<and> map (\<lambda>i. i\<lparr>generatedAt := []\<rparr>) xs = map (\<lambda>i. i\<lparr>generatedAt := []\<rparr>) ys
        \<and> (n1 = m1 \<and> n2 = m2 \<and> n3 = m3 \<longrightarrow> xs = ys)"
    apply (rule exI [of _ ?xs])
    apply (rule exI [of _ ?ys])
    apply (intro conjI)
            apply (rule g(1))
           apply (rule h)
          apply (rule canned_feedback_fields(1))
         apply (rule canned_feedback_fields(2))
        apply (rule canned_feedback_fields(3))
       apply (rule canned_feedback_fields(4))
      apply (rule 1)
     apply (rule 2)
    apply (rule 3)
    done
qed

lemma clock_ok_1700: "clock_ok 1700000000000" "clock_ok 1700000001000"
  by (simp_all add: clock_ok_def valid_time_def)

theorem fetchFeedback_canned_witness:
  "\<exists>xs ys. fetchFeedback 1700000000000 1700000000000 1700000000000 = Resolved 600 xs
        \<and> fetchFeedback 1700000001000 1700000001000 1700000001000 = Resolved 600 ys
        \<and> length xs = 3
        \<and> map fb_id xs = [''fb-1'', ''fb-2'', ''fb-3'']
        \<and> map studentName xs = [''Aadhya Sharma'', ''Arjun Patel'', ''Diya Singh'']
        \<and> map aiScore xs = [92, 78, 85]
        \<and> map (\<lambda>i. Inr (generatedAt i)) xs
            = [Date_toISOString (1700000000000 - 3600000),
               Date_toISOString (1700000000000 - 18000000),
               Date_toISOString (1700000000000 - 86400000)]
        \<and> map (\<lambda>i. i\<lparr>generatedAt := []\<rparr>) xs = map (\<lambda>i. i\<lparr>generatedAt := []\<rparr>) ys
        \<and> ((1700000000000::int) = 1700000001000 \<and> (1700000000000::int) = 1700000001000
            \<and> (1700000000000::int) = 1700000001000 \<longrightarrow> xs = ys)"
proof -
  have c: "clock_ok 1700000000000 \<and> clock_ok 1700000000000 \<and> clock_ok 1700000000000
         \<and> clock_ok 1700000001000 \<and> clock_ok 1700000001000 \<and> clock_ok 1700000001000"
    by (simp only: clock_ok_1700 simp_thms)
  show ?thesis
    by (rule mp [OF fetchFeedback_canned c])
qed



subsection \<open>Asynchronous operations\<close>

lemma regenerateFeedback_resolved:
  assumes "valid_time now"
  shows "\<exists>ts. Date_toISOString now = Inr ts
           \<and> regenerateFeedback fl ident rnd now
               = Resolved 900 \<lparr> r_id = ident, newScore = \<lfloor>fl (75 + fl (rnd * 20))\<rfloor>,
                                timestamp = ts \<rparr>"
proof -
  obtain ts where ts: "Date_toISOString now = Inr ts"
    using toISOString_valid [OF assms] ..
  then show ?thesis by (simp add: regenerateFeedback_def)
qed

lemma handleLogin_toasts:
  assumes "em \<noteq> []" "pw \<noteq> []"
  shows "map toast_title (toasts (handleLogin refuses em pw r st))
           = [if refuses storage_key (JSON_stringify (mockUsers r))
              then ''Login Failed'' else ''Welcome to EduBridge!'']"
  using assms by (simp add: handleLogin_def login_def setItem_def Let_def)

text \<open>
  C7, as stated, fails: in a browser that refuses the write to \<^verbatim>\<open>localStorage\<close>,
  \<^verbatim>\<open>login\<close> rejects and \<^verbatim>\<open>handleLogin\<close> shows the "Login Failed" toast.
\<close>

theorem login_failed_counterexample:
  "map toast_title (toasts (handleLogin storage_full ''teacher@demo.com'' ''demo123'' Teacher
        \<lparr> user = None, loading = False, localStorage = Map.empty \<rparr>))
     = [''Login Failed'']"
  by (simp add: handleLogin_toasts storage_full_def)

text \<open>
  C7, amended: the three mock backend calls are fixed artificial delays. \<^verbatim>\<open>login\<close>
  waits 1000 ms and then resolves when the browser takes the write of the saved user and
  rejects when it refuses it; \<^verbatim>\<open>handleLogin\<close>, given an email and a password, shows
  "Login Failed" in the second case and the welcome toast in the first.
  \<^verbatim>\<open>fetchFeedback\<close> waits 600 ms and \<^verbatim>\<open>regenerateFeedback\<close> waits 900 ms, and both
  resolve and never reject, for every clock reading whose dates are time values; so the
  mutation always runs \<^verbatim>\<open>onSuccess\<close> and its \<^verbatim>\<open>onError\<close> handler is unreachable.
\<close>

theorem async_outcomes:
  "fst (login refuses em pw r st) =
     (if refuses ''edubridge-user'' (JSON_stringify (mockUsers r))
      then Rejected 1000 QuotaExceededError else Resolved 1000 ())
   \<and> (em \<noteq> [] \<and> pw \<noteq> [] \<longrightarrow>
        map toast_title (toasts (handleLogin refuses em pw r st))
          = [if refuses ''edubridge-user'' (JSON_stringify (mockUsers r))
             then ''Login Failed'' else ''Welcome to EduBridge!''])
   \<and> (clock_ok n1 \<and> clock_ok n2 \<and> clock_ok n3 \<longrightarrow>
        (\<exists>xs. fetchFeedback n1 n2 n3 = Resolved 600 xs))
   \<and> (valid_time now \<longrightarrow> (\<exists>res. regenerateFeedback fl ident rnd now = Resolved 900 res))
   \<and> (valid_time now \<longrightarrow>
        toast_title (snd (regenMutation_mutate fl ident rnd now cache))
          = ''Feedback regenerated'')"
proof (intro conjI impI)
  show "fst (login refuses em pw r st) =
     (if refuses ''edubridge-user'' (JSON_stringify (mockUsers r))
      then Rejected 1000 QuotaExceededError else Resolved 1000 ())"
    using login_promise [of refuses em pw r st] by (simp only: storage_key_def)
next
  assume "em \<noteq> [] \<and> pw \<noteq> []"
  then have "em \<noteq> []" "pw \<noteq> []" by simp_all
  from handleLogin_toasts [OF this, of refuses r st]
  show "map toast_title (toasts (handleLogin refuses em pw r st))
          = [if refuses ''edubridge-user'' (JSON_stringify (mockUsers r))
             then ''Login Failed'' else ''Welcome to EduBridge!'']"
    by (simp only: storage_key_def)
next
  assume "clock_ok n1 \<and> clock_ok n2 \<and> clock_ok n3"
  then have "clock_ok n1" "clock_ok n2" "clock_ok n3" by simp_all
  from fetchFeedback_clock_ok [OF this]
  show "\<exists>xs. fetchFeedback n1 n2 n3 = Resolved 600 xs" by blast
next
  assume v: "valid_time now"
  from regenerateFeedback_resolved [OF v, of fl ident rnd]
  show "\<exists>res. regenerateFeedback fl ident rnd now = Resolved 900 res" by blast
next
  assume v: "valid_time now"
  from regenerateFeedback_resolved [OF v, of fl ident rnd]
  obtain res where "regenerateFeedback fl ident rnd now = Resolved 900 res" by blast
  then show "toast_title (snd (regenMutation_mutate fl ident rnd now cache))
               = ''Feedback regenerated''"
    by (simp add: regenMutation_mutate_def)
qed

theorem async_outcomes_witness:
  "clock_ok 1700000000000 \<and> valid_time 1700000000000
   \<and> (\<exists>xs. fetchFeedback 1700000000000 1700000000000 1700000000000 = Resolved 600 xs)
   \<and> (\<exists>res. regenerateFeedback exact ''fb-2'' (1 / 2) 1700000000000 = Resolved 900 res)
   \<and> toast_title (snd (regenMutation_mutate exact ''fb-2'' (1 / 2) 1700000000000 None))
        = ''Feedback regenerated''
   \<and> map toast_title (toasts (handleLogin storage_free ''teacher@demo.com'' ''demo123'' Teacher
        \<lparr> user = None, loading = False, localStorage = Map.empty \<rparr>))
        = [''Welcome to EduBridge!'']"
proof -
  have c: "clock_ok 1700000000000" and v: "valid_time 1700000000000"
    by (simp_all add: clock_ok_def valid_time_def)
  have ne: "''teacher@demo.com'' \<noteq> [] \<and> ''demo123'' \<noteq> []" by simp
  note T = async_outcomes [of storage_free "''teacher@demo.com''" "''demo123''" Teacher
      "\<lparr> user = None, loading = False, localStorage = Map.empty \<rparr>"
      1700000000000 1700000000000 1700000000000 1700000000000 exact "''fb-2''" "1 / 2" None]
  note B = T [THEN conjunct2, THEN conjunct1]
  note C = T [THEN conjunct2, THEN conjunct2, THEN conjunct1]
  note D = T [THEN conjunct2, THEN conjunct2, THEN conjunct2, THEN conjunct1]
  note E = T [THEN conjunct2, THEN conjunct2, THEN conjunct2, THEN conjunct2]
  have c3: "clock_ok 1700000000000 \<and> clock_ok 1700000000000 \<and> clock_ok 1700000000000"
    by (simp only: c simp_thms)
  have t: "map toast_title (toasts (handleLogin storage_free ''teacher@demo.com''
        ''demo123'' Teacher \<lparr> user = None, loading = False, localStorage = Map.empty \<rparr>))
      = [''Welcome to EduBridge!'']"
    using mp [OF B ne] by (simp add: storage_free_def)
  note f = mp [OF C c3]
  note g = mp [OF D v]
  note h = mp [OF E v]
  from c v f g h t show ?thesis by (intro conjI)
qed

subsection \<open>Regeneration\<close>

lemma onSuccess_update_Some:
  "onSuccess_update res (Some xs) =
     Some (map (\<lambda>item. if fb_id item = r_id res
                         then item\<lparr>aiScore := newScore res, generatedAt := timestamp res,
                                   status := Draft\<rparr>
                         else item) xs)"
  by (simp add: onSuccess_update_def)

lemma map_if_absent:
  "k \<notin> f ` set xs \<Longrightarrow> map (\<lambda>x. if f x = k then g x else x) xs = xs"
  by (induction xs) auto

text \<open>
  C8: a successful regeneration for an id updates the cached list so that only the items
  with that id change, and of them only \<^verbatim>\<open>aiScore\<close>, \<^verbatim>\<open>generatedAt\<close> and \<^verbatim>\<open>status\<close>
  (which becomes draft); every other item and field, the length and the order stay, an id
  that is not in the list leaves the list as it is, and an absent list stays absent.
\<close>

theorem regen_update_frame:
  "onSuccess_update res None = None
   \<and> (\<exists>new. onSuccess_update res (Some old) = Some new
        \<and> length new = length old
        \<and> map fb_id new = map fb_id old
        \<and> map studentName new = map studentName old
        \<and> map fb_subject new = map fb_subject old
        \<and> map submissionTitle new = map submissionTitle old
        \<and> map strengths new = map strengths old
        \<and> map improvements new = map improvements old
        \<and> map tags new = map tags old
        \<and> (\<forall>i < length old.
              (fb_id (old ! i) = r_id res \<longrightarrow>
                 new ! i = (old ! i)\<lparr>aiScore := newScore res, generatedAt := timestamp res,
                                      status := Draft\<rparr>)
            \<and> (fb_id (old ! i) \<noteq> r_id res \<longrightarrow> new ! i = old ! i))
        \<and> (r_id res \<notin> fb_id ` set old \<longrightarrow> new = old))
   \<and> (valid_time now \<longrightarrow>
        (\<exists>result. regenerateFeedback fl ident rnd now = Resolved 900 result
           \<and> r_id result = ident
           \<and> fst (regenMutation_mutate fl ident rnd now cache) = onSuccess_update result cache))"
proof (intro conjI impI)
  show "onSuccess_update res None = None" by (simp add: onSuccess_update_def)
next
  let ?f = "\<lambda>item. if fb_id item = r_id res
                         then item\<lparr>aiScore := newScore res, generatedAt := timestamp res,
                                   status := Draft\<rparr>
                         else item"
  have a: "map fb_id (map ?f old) = map fb_id old" "map studentName (map ?f old) = map studentName old"
    "map fb_subject (map ?f old) = map fb_subject old"
    "map submissionTitle (map ?f old) = map submissionTitle old"
    "map strengths (map ?f old) = map strengths old"
    "map improvements (map ?f old) = map improvements old"
    "map tags (map ?f old) = map tags old"
    by (simp_all add: comp_def if_distrib [of fb_id] if_distrib [of studentName]
          if_distrib [of fb_subject] if_distrib [of submissionTitle] if_distrib [of strengths]
          if_distrib [of improvements] if_distrib [of tags] cong: if_cong)
  have b: "\<forall>i < length old.
              (fb_id (old ! i) = r_id res \<longrightarrow>
                 map ?f old ! i = (old ! i)\<lparr>aiScore := newScore res, generatedAt := timestamp res,
                                      status := Draft\<rparr>)
            \<and> (fb_id (old ! i) \<noteq> r_id res \<longrightarrow> map ?f old ! i = old ! i)"
    by simp
  have c: "r_id res \<notin> fb_id ` set old \<longrightarrow> map ?f old = old"
    by (rule impI) (rule map_if_absent)
  show "\<exists>new. onSuccess_update res (Some old) = Some new
        \<and> length new = length old
        \<and> map fb_id new = map fb_id old
        \<and> map studentName new = map studentName old
        \<and> map fb_subject new = map fb_subject old
        \<and> map submissionTitle new = map submissionTitle old
        \<and> map strengths new = map strengths old
        \<and> map improvements new = map improvements old
        \<and> map tags new = map tags old
        \<and> (\<forall>i < length old.
              (fb_id (old ! i) = r_id res \<longrightarrow>
                 new ! i = (old ! i)\<lparr>aiScore := newScore res, generatedAt := timestamp res,
                                      status := Draft\<rparr>)
            \<and> (fb_id (old ! i) \<noteq> r_id res \<longrightarrow> new ! i = old ! i))
        \<and> (r_id res \<notin> fb_id ` set old \<longrightarrow> new = old)"
    apply (rule exI [of _ "map ?f old"])
    apply (intro conjI)
              apply (rule onSuccess_update_Some)
             apply (rule length_map)
            apply (rule a(1))
           apply (rule a(2))
          apply (rule a(3))
         apply (rule a(4))
        apply (rule a(5))
       apply (rule a(6))
      apply (rule a(7))
     apply (rule b)
    apply (rule c)
    done
next
  assume v: "valid_time now"
  from regenerateFeedback_resolved [OF v, of fl ident rnd]
  obtain ts where r: "regenerateFeedback fl ident rnd now
               = Resolved 900 \<lparr> r_id = ident, newScore = \<lfloor>fl (75 + fl (rnd * 20))\<rfloor>, timestamp = ts \<rparr>"
    by blast
  show "\<exists>result. regenerateFeedback fl ident rnd now = Resolved 900 result
           \<and> r_id result = ident
           \<and> fst (regenMutation_mutate fl ident rnd now cache) = onSuccess_update result cache"
    by (rule exI [of _ "\<lparr> r_id = ident, newScore = \<lfloor>fl (75 + fl (rnd * 20))\<rfloor>, timestamp = ts \<rparr>"])
       (simp add: r regenMutation_mutate_def)
qed


theorem regen_update_frame_witness:
  "valid_time 1700000000000
   \<and> (1::nat) < length (canned_feedback ''a'' ''b'' ''c'')
   \<and> fb_id (canned_feedback ''a'' ''b'' ''c'' ! 1) = ''fb-2''
   \<and> ''fb-9'' \<notin> fb_id ` set (canned_feedback ''a'' ''b'' ''c'')
   \<and> (\<exists>new. onSuccess_update \<lparr> r_id = ''fb-2'', newScore = 88, timestamp = ''t'' \<rparr>
               (Some (canned_feedback ''a'' ''b'' ''c'')) = Some new
          \<and> new ! 1 = (canned_feedback ''a'' ''b'' ''c'' ! 1)
                         \<lparr>aiScore := 88, generatedAt := ''t'', status := Draft\<rparr>
          \<and> new ! 0 = canned_feedback ''a'' ''b'' ''c'' ! 0)
   \<and> onSuccess_update \<lparr> r_id = ''fb-9'', newScore = 88, timestamp = ''t'' \<rparr>
        (Some (canned_feedback ''a'' ''b'' ''c'')) = Some (canned_feedback ''a'' ''b'' ''c'')
   \<and> (\<exists>result. regenerateFeedback exact ''fb-2'' (1 / 2) 1700000000000 = Resolved 900 result
          \<and> r_id result = ''fb-2'')"
proof -
  let ?old = "canned_feedback ''a'' ''b'' ''c''"
  let ?res = "\<lparr> r_id = ''fb-2'', newScore = 88, timestamp = ''t'' \<rparr>"
  let ?res9 = "\<lparr> r_id = ''fb-9'', newScore = 88, timestamp = ''t'' \<rparr>"
  have v: "valid_time 1700000000000" by (simp add: valid_time_def)
  have len: "length ?old = 3" by (rule canned_feedback_fields(1))
  have ids: "fb_id (?old ! 0) = ''fb-1''" "fb_id (?old ! 1) = ''fb-2''"
    by (simp_all add: canned_feedback_def)
  have absent: "''fb-9'' \<notin> fb_id ` set ?old"
    by (simp add: canned_feedback_def)
  note T = regen_update_frame [of ?res ?old 1700000000000 exact "''fb-2''" "1 / 2" None]
  note T9 = regen_update_frame [of ?res9 ?old 1700000000000 exact "''fb-2''" "1 / 2" None]
  from T obtain new where n: "onSuccess_update ?res (Some ?old) = Some new"
    and nth: "\<forall>i < length ?old.
              (fb_id (?old ! i) = r_id ?res \<longrightarrow>
                 new ! i = (?old ! i)\<lparr>aiScore := newScore ?res, generatedAt := timestamp ?res,
                                      status := Draft\<rparr>)
            \<and> (fb_id (?old ! i) \<noteq> r_id ?res \<longrightarrow> new ! i = ?old ! i)"
    by (elim conjE exE)
  have n1: "new ! 1 = (?old ! 1)\<lparr>aiScore := 88, generatedAt := ''t'', status := Draft\<rparr>"
    using nth [rule_format, of 1] len ids by simp
  have n0: "new ! 0 = ?old ! 0"
    using nth [rule_format, of 0] len ids by simp
  from T9 obtain new9 where n9: "onSuccess_update ?res9 (Some ?old) = Some new9"
    and same: "r_id ?res9 \<notin> fb_id ` set ?old \<longrightarrow> new9 = ?old"
    by (elim conjE exE)
  have s9: "onSuccess_update ?res9 (Some ?old) = Some ?old"
    using n9 same absent by simp
  from T v have "\<exists>result. regenerateFeedback exact ''fb-2'' (1 / 2) 1700000000000 = Resolved 900 result
           \<and> r_id result = ''fb-2''
           \<and> fst (regenMutation_mutate exact ''fb-2'' (1 / 2) 1700000000000 None)
               = onSuccess_update result None"
    by (elim conjE) (erule mp)
  then have r: "\<exists>result. regenerateFeedback exact ''fb-2'' (1 / 2) 1700000000000 = Resolved 900 result
          \<and> r_id result = ''fb-2''"
    by blast
  have e: "\<exists>new. onSuccess_update ?res (Some ?old) = Some new
          \<and> new ! 1 = (?old ! 1)\<lparr>aiScore := 88, generatedAt := ''t'', status := Draft\<rparr>
          \<and> new ! 0 = ?old ! 0"
    using n n1 n0 by blast
  have l: "(1::nat) < length ?old" using len by simp
  from v l ids(2) absent e s9 r show ?thesis by (intro conjI)
qed


subsection \<open>The summary cards\<close>

lemma binary64_exact: "binary64_rounding exact"
  by (simp add: binary64_rounding_def exact_def)

lemma fl_half_integer:
  assumes "binary64_rounding fl" "\<bar>m\<bar> \<le> 2 ^ 53"
  shows "fl (of_int m / 2) = of_int m / 2"
  using assms unfolding binary64_rounding_def by blast

lemma fl_integer:
  assumes "binary64_rounding fl" "\<bar>m\<bar> \<le> 2 ^ 52"
  shows "fl (of_int m) = of_int m"
proof -
  have "\<bar>2 * m\<bar> \<le> 2 ^ 53" using assms(2) by simp
  from fl_half_integer [OF assms(1) this] show ?thesis by simp
qed

lemma fl_relative:
  assumes "binary64_rounding fl" "1 / 2 ^ 1022 \<le> \<bar>x\<bar>" "\<bar>x\<bar> \<le> 2 ^ 1023"
  shows "\<bar>fl x - x\<bar> \<le> \<bar>x\<bar> / 2 ^ 53"
  using assms unfolding binary64_rounding_def by blast

lemma reduce_exact:
  assumes fl: "binary64_rounding fl"
    and "\<forall>i \<in> set xs. 0 \<le> aiScore i \<and> aiScore i \<le> 100"
    and "0 \<le> a" "a + 100 * int (length xs) \<le> 2 ^ 52"
  shows "foldl (\<lambda>a b. fl (a + real_of_int (aiScore b))) (real_of_int a) xs
           = real_of_int (a + sum_list (map aiScore xs))"
  using assms(2-4)
proof (induction xs arbitrary: a)
  case Nil
  then show ?case by simp
next
  case (Cons x xs)
  have x: "0 \<le> aiScore x" "aiScore x \<le> 100" using Cons.prems(1) by simp_all
  have "\<bar>a + aiScore x\<bar> \<le> 2 ^ 52" using x Cons.prems(2,3) by simp
  then have step: "fl (real_of_int a + real_of_int (aiScore x)) = real_of_int (a + aiScore x)"
    using fl_integer [OF fl, of "a + aiScore x"] by simp
  have "foldl (\<lambda>a b. fl (a + real_of_int (aiScore b))) (real_of_int (a + aiScore x)) xs
          = real_of_int ((a + aiScore x) + sum_list (map aiScore xs))"
    using Cons.prems x by (intro Cons.IH) simp_all
  then show ?case by (simp add: step add.assoc)
qed

lemma sum_scores_bounds:
  assumes "\<forall>i \<in> set xs. 0 \<le> aiScore i \<and> aiScore i \<le> 100"
  shows "0 \<le> sum_list (map aiScore xs)" "sum_list (map aiScore xs) \<le> 100 * int (length xs)"
  using assms by (induction xs) auto


lemma quotient_split:
  fixes s n :: int
  assumes "0 < n"
  shows "real_of_int (2 * s + 1) / real_of_int (2 * n)
           = real_of_int s / real_of_int n + 1 / (2 * real_of_int n)"
    and "real_of_int (2 * s - 1) / real_of_int (2 * n)
           = real_of_int s / real_of_int n - 1 / (2 * real_of_int n)"
    and "real_of_int ((2 * k + 1) * n) / real_of_int (2 * n) = real_of_int k + 1 / 2"
    and "real_of_int ((2 * k - 1) * n) / real_of_int (2 * n) = real_of_int k - 1 / 2"
  using assms by (simp_all add: field_simps)

lemma round_margin_upper:
  fixes s n :: int
  assumes "0 < n"
  shows "real_of_int s / real_of_int n + 1 / (2 * real_of_int n)
           \<le> real_of_int \<lfloor>real_of_int s / real_of_int n + 1 / 2\<rfloor> + 1 / 2"
proof -
  define y where "y = real_of_int s / real_of_int n"
  define k where "k = \<lfloor>y + 1 / 2\<rfloor>"
  have rn: "0 < real_of_int n" using assms by simp
  have yn: "y * real_of_int n = real_of_int s" unfolding y_def using rn by simp
  have "y + 1 / 2 < real_of_int k + 1" unfolding k_def by linarith
  then have "2 * y < 2 * real_of_int k + 1" by linarith
  then have "(2 * y) * real_of_int n < (2 * real_of_int k + 1) * real_of_int n"
    using rn by (rule mult_strict_right_mono)
  moreover have "(2 * y) * real_of_int n = real_of_int (2 * s)" using yn by simp
  moreover have "(2 * real_of_int k + 1) * real_of_int n = real_of_int ((2 * k + 1) * n)"
    by simp
  ultimately have "real_of_int (2 * s) < real_of_int ((2 * k + 1) * n)" by (simp only:)
  then have "2 * s < (2 * k + 1) * n" by (simp only: of_int_less_iff)
  then have "2 * s + 1 \<le> (2 * k + 1) * n" by simp
  then have "real_of_int (2 * s + 1) \<le> real_of_int ((2 * k + 1) * n)"
    by (simp only: of_int_le_iff)
  moreover have "0 \<le> real_of_int (2 * n)" using assms by simp
  ultimately have "real_of_int (2 * s + 1) / real_of_int (2 * n)
      \<le> real_of_int ((2 * k + 1) * n) / real_of_int (2 * n)"
    by (rule divide_right_mono)
  then have "y + 1 / (2 * real_of_int n) \<le> real_of_int k + 1 / 2"
    unfolding quotient_split(1) [OF assms] quotient_split(3) [OF assms] y_def .
  then show ?thesis unfolding k_def y_def .
qed

lemma round_margin_lower:
  fixes s n :: int
  assumes "0 < n"
    and "2 * s \<noteq> (2 * \<lfloor>real_of_int s / real_of_int n + 1 / 2\<rfloor> - 1) * n"
  shows "real_of_int \<lfloor>real_of_int s / real_of_int n + 1 / 2\<rfloor> - 1 / 2
           \<le> real_of_int s / real_of_int n - 1 / (2 * real_of_int n)"
proof -
  define y where "y = real_of_int s / real_of_int n"
  define k where "k = \<lfloor>y + 1 / 2\<rfloor>"
  have rn: "0 < real_of_int n" using assms(1) by simp
  have yn: "y * real_of_int n = real_of_int s" unfolding y_def using rn by simp
  have "real_of_int k \<le> y + 1 / 2" unfolding k_def by linarith
  then have "2 * real_of_int k - 1 \<le> 2 * y" by linarith
  then have "(2 * real_of_int k - 1) * real_of_int n \<le> (2 * y) * real_of_int n"
    using rn by (intro mult_right_mono) simp_all
  moreover have "(2 * y) * real_of_int n = real_of_int (2 * s)" using yn by simp
  moreover have "(2 * real_of_int k - 1) * real_of_int n = real_of_int ((2 * k - 1) * n)"
    by simp
  ultimately have "real_of_int ((2 * k - 1) * n) \<le> real_of_int (2 * s)" by (simp only:)
  then have "(2 * k - 1) * n \<le> 2 * s" by (simp only: of_int_le_iff)
  moreover have "2 * s \<noteq> (2 * k - 1) * n" using assms(2) unfolding k_def y_def .
  ultimately have "(2 * k - 1) * n \<le> 2 * s - 1" by simp
  then have "real_of_int ((2 * k - 1) * n) \<le> real_of_int (2 * s - 1)"
    by (simp only: of_int_le_iff)
  moreover have "0 \<le> real_of_int (2 * n)" using assms(1) by simp
  ultimately have "real_of_int ((2 * k - 1) * n) / real_of_int (2 * n)
      \<le> real_of_int (2 * s - 1) / real_of_int (2 * n)"
    by (rule divide_right_mono)
  then have "real_of_int k - 1 / 2 \<le> y - 1 / (2 * real_of_int n)"
    unfolding quotient_split(2) [OF assms(1)] quotient_split(4) [OF assms(1)] y_def .
  then show ?thesis unfolding k_def y_def .
qed

lemma rounded_quotient:
  fixes s n :: int
  assumes fl: "binary64_rounding fl"
    and s: "0 \<le> s" "s \<le> 100 * n" and n: "0 < n" "n < 2 ^ 32"
  shows "Math_round (fl (real_of_int s / real_of_int n))
           = \<lfloor>real_of_int s / real_of_int n + 1 / 2\<rfloor>"
proof (cases "s = 0")
  case True
  have "fl 0 = 0" using fl_integer [OF fl, of 0] by simp
  then show ?thesis using True by (simp add: Math_round_def)
next
  case False
  define x where "x = real_of_int s / real_of_int n"
  define k where "k = \<lfloor>x + 1 / 2\<rfloor>"
  have rn: "0 < real_of_int n" "real_of_int n < 2 ^ 32" using n by simp_all
  have s1: "1 \<le> real_of_int s" using s(1) False by simp
  have xpos: "0 < x" unfolding x_def using s1 rn by simp
  have xle: "x \<le> 100"
  proof -
    have "real_of_int s \<le> 100 * real_of_int n" using s(2) by (metis of_int_le_iff of_int_mult of_int_numeral)
    then show ?thesis unfolding x_def using rn by (simp add: field_simps)
  qed
  have xge: "1 / 2 ^ 32 \<le> x"
  proof -
    have "1 / 2 ^ 32 \<le> 1 / real_of_int n" using rn by (simp add: field_simps)
    also have "\<dots> \<le> x" unfolding x_def using s1 rn by (simp add: field_simps)
    finally show ?thesis .
  qed
  have lo: "1 / 2 ^ 1022 \<le> \<bar>x\<bar>"
  proof -
    have "(1::real) / 2 ^ 1022 \<le> 1 / 2 ^ 32" by simp
    with xge xpos show ?thesis by linarith
  qed
  have hi: "\<bar>x\<bar> \<le> 2 ^ 1023"
  proof -
    have "(100::real) \<le> 2 ^ 1023" by simp
    with xle xpos show ?thesis by linarith
  qed
  have err: "\<bar>fl x - x\<bar> \<le> \<bar>x\<bar> / 2 ^ 53" by (rule fl_relative [OF fl lo hi])
  have small: "\<bar>x\<bar> / 2 ^ 53 < 1 / (2 * real_of_int n)"
  proof -
    have "\<bar>x\<bar> / 2 ^ 53 \<le> 100 / 2 ^ 53" using xle xpos by (simp add: field_simps)
    also have "\<dots> < 1 / 2 ^ 33" by simp
    also have "\<dots> \<le> 1 / (2 * real_of_int n)" using rn by (simp add: field_simps)
    finally show ?thesis .
  qed
  have upper: "fl x < real_of_int k + 1 / 2"
    using round_margin_upper [OF n(1), of s] err small unfolding k_def x_def by linarith
  have lower: "real_of_int k - 1 / 2 \<le> fl x"
  proof (cases "2 * s = (2 * k - 1) * n")
    case True
    then have "real_of_int (2 * s) = real_of_int ((2 * k - 1) * n)" by simp
    then have xeq: "x = real_of_int (2 * k - 1) / 2"
      unfolding x_def using rn by (simp add: field_simps)
    have "real_of_int (2 * k - 1) \<le> 200" "0 < real_of_int (2 * k - 1)"
      using xle xpos unfolding xeq by simp_all
    then have "2 * k - 1 \<le> 200" "0 < 2 * k - 1" by linarith+
    then have "\<bar>2 * k - 1\<bar> \<le> 2 ^ 53" by simp
    from fl_half_integer [OF fl this] have "fl x = x" unfolding xeq .
    then show ?thesis unfolding xeq by simp
  next
    case False
    then have "2 * s \<noteq> (2 * \<lfloor>real_of_int s / real_of_int n + 1 / 2\<rfloor> - 1) * n"
      unfolding k_def x_def .
    from round_margin_lower [OF n(1) this] err small show ?thesis
      unfolding k_def x_def by linarith
  qed
  have "\<lfloor>fl x + 1 / 2\<rfloor> = k"
    using upper lower by linarith
  then show ?thesis unfolding Math_round_def k_def x_def .
qed

lemma status_not_Draft: "(status i \<noteq> Draft) = (status i = Final)"
  by (cases "status i") simp_all

lemma drafts_finals_count:
  "int (length xs) - int (length (filter (\<lambda>i. status i = Draft) xs))
     = int (length (filter (\<lambda>i. status i = Final) xs))"
  using sum_length_filter_compl [of "\<lambda>i. status i = Draft" xs]
  by (simp add: status_not_Draft)

lemma Math_round_nearest: "\<bar>real_of_int \<lfloor>x + 1 / 2\<rfloor> - x\<bar> \<le> 1 / 2"
  by linarith

lemma summary_nonempty:
  "xs \<noteq> [] \<Longrightarrow> summary fl (Some xs) =
     \<lparr> avgScore = Math_round (fl (foldl (\<lambda>a b. fl (a + real_of_int (aiScore b))) 0 xs
                                    / real_of_int (int (length xs)))),
       total = int (length xs),
       drafts = int (length (filter (\<lambda>i. status i = Draft) xs)),
       finals = int (length (filter (\<lambda>i. status i = Final) xs)) \<rparr>"
  by (simp add: summary_def Let_def drafts_finals_count)

lemma summary_empty:
  "summary fl None = \<lparr> avgScore = 0, total = 0, drafts = 0, finals = 0 \<rparr>"
  "summary fl (Some []) = \<lparr> avgScore = 0, total = 0, drafts = 0, finals = 0 \<rparr>"
  by (simp_all add: summary_def)

lemma summary_counts:
  "total (summary fl (Some xs)) = int (length xs)"
  "drafts (summary fl (Some xs)) = int (length (filter (\<lambda>i. status i = Draft) xs))"
  "finals (summary fl (Some xs)) = int (length (filter (\<lambda>i. status i = Final) xs))"
  by (cases "xs = []"; simp add: summary_empty summary_nonempty)+

lemma summary_avgScore:
  assumes fl: "binary64_rounding fl" and ne: "xs \<noteq> []" and len: "length xs < 2 ^ 32"
    and sc: "\<forall>i \<in> set xs. 0 \<le> aiScore i \<and> aiScore i \<le> 100"
  shows "avgScore (summary fl (Some xs))
           = \<lfloor>real_of_int (sum_list (map aiScore xs)) / real (length xs) + 1 / 2\<rfloor>"
proof -
  have n: "0 < int (length xs)" "int (length xs) < 2 ^ 32"
    using ne len by simp_all
  then have "100 * int (length xs) \<le> 2 ^ 52" by simp
  then have "(0::int) + 100 * int (length xs) \<le> 2 ^ 52" by simp
  from reduce_exact [OF fl sc _ this]
  have red: "foldl (\<lambda>a b. fl (a + real_of_int (aiScore b))) 0 xs
               = real_of_int (sum_list (map aiScore xs))"
    by simp
  have "Math_round (fl (real_of_int (sum_list (map aiScore xs)) / real_of_int (int (length xs))))
          = \<lfloor>real_of_int (sum_list (map aiScore xs)) / real_of_int (int (length xs)) + 1 / 2\<rfloor>"
    by (rule rounded_quotient [OF fl sum_scores_bounds [OF sc] n])
  then show ?thesis by (simp add: summary_nonempty [OF ne] red)
qed

text \<open>
  C9: for every feedback list the summary has drafts + finals = total = the length of the
  list, and for an empty or absent list all four fields are 0. For a nonempty list
  \<^verbatim>\<open>avgScore\<close> is the arithmetic mean of the \<^verbatim>\<open>aiScore\<close> fields rounded to the nearest
  integer (a half upwards), the sum and the quotient being computed in binary64
  arithmetic; this is shown for scores that are whole numbers from 0 to 100, the range
  the interface documents, and lists shorter than \<open>2^32\<close>, the bound on the length of an
  array.
\<close>

theorem summary_cards_correct:
  "summary fl None = \<lparr> avgScore = 0, total = 0, drafts = 0, finals = 0 \<rparr>
   \<and> summary fl (Some []) = \<lparr> avgScore = 0, total = 0, drafts = 0, finals = 0 \<rparr>
   \<and> total (summary fl (Some xs)) = int (length xs)
   \<and> drafts (summary fl (Some xs)) + finals (summary fl (Some xs))
       = total (summary fl (Some xs))
   \<and> drafts (summary fl (Some xs)) = int (length (filter (\<lambda>i. status i = Draft) xs))
   \<and> finals (summary fl (Some xs)) = int (length (filter (\<lambda>i. status i = Final) xs))
   \<and> (binary64_rounding fl \<and> xs \<noteq> [] \<and> length xs < 2 ^ 32
        \<and> (\<forall>i \<in> set xs. 0 \<le> aiScore i \<and> aiScore i \<le> 100) \<longrightarrow>
        avgScore (summary fl (Some xs))
          = \<lfloor>real_of_int (sum_list (map aiScore xs)) / real (length xs) + 1 / 2\<rfloor>
      \<and> \<bar>real_of_int (avgScore (summary fl (Some xs)))
           - real_of_int (sum_list (map aiScore xs)) / real (length xs)\<bar> \<le> 1 / 2)"
proof (intro conjI impI)
  show "drafts (summary fl (Some xs)) + finals (summary fl (Some xs))
          = total (summary fl (Some xs))"
    using drafts_finals_count [of xs] by (simp add: summary_counts)
next
  assume a: "binary64_rounding fl \<and> xs \<noteq> [] \<and> length xs < 2 ^ 32
        \<and> (\<forall>i \<in> set xs. 0 \<le> aiScore i \<and> aiScore i \<le> 100)"
  then have avg: "avgScore (summary fl (Some xs))
          = \<lfloor>real_of_int (sum_list (map aiScore xs)) / real (length xs) + 1 / 2\<rfloor>"
    by (intro summary_avgScore) simp_all
  then show "avgScore (summary fl (Some xs))
          = \<lfloor>real_of_int (sum_list (map aiScore xs)) / real (length xs) + 1 / 2\<rfloor>" .
  show "\<bar>real_of_int (avgScore (summary fl (Some xs)))
           - real_of_int (sum_list (map aiScore xs)) / real (length xs)\<bar> \<le> 1 / 2"
    unfolding avg by (rule Math_round_nearest)
qed (rule summary_empty summary_counts)+

theorem summary_cards_correct_witness:
  "binary64_rounding exact
   \<and> canned_feedback [] [] [] \<noteq> []
   \<and> length (canned_feedback [] [] []) < 2 ^ 32
   \<and> summary exact (Some (canned_feedback [] [] []))
       = \<lparr> avgScore = 85, total = 3, drafts = 1, finals = 2 \<rparr>"
proof -
  let ?xs = "canned_feedback [] [] []"
  have ne: "?xs \<noteq> []" by (simp add: canned_feedback_def)
  have len: "length ?xs < 2 ^ 32" by (simp add: canned_feedback_fields(1))
  have sc: "\<forall>i \<in> set ?xs. 0 \<le> aiScore i \<and> aiScore i \<le> 100"
    by (simp add: canned_feedback_def)
  have s: "sum_list (map aiScore ?xs) = 255" "length ?xs = 3"
    "length (filter (\<lambda>i. status i = Draft) ?xs) = 1"
    "length (filter (\<lambda>i. status i = Final) ?xs) = 2"
    by (simp_all add: canned_feedback_def)
  have f: "\<lfloor>real_of_int 255 / real 3 + 1 / 2\<rfloor> = (85::int)" by simp
  note T = summary_cards_correct [of exact ?xs]
  have h: "binary64_rounding exact \<and> ?xs \<noteq> [] \<and> length ?xs < 2 ^ 32
        \<and> (\<forall>i \<in> set ?xs. 0 \<le> aiScore i \<and> aiScore i \<le> 100)"
    using binary64_exact ne len sc by (intro conjI)
  note A = T [THEN conjunct2, THEN conjunct2, THEN conjunct1]
  note D = T [THEN conjunct2, THEN conjunct2, THEN conjunct2, THEN conjunct2, THEN conjunct1]
  note F = T [THEN conjunct2, THEN conjunct2, THEN conjunct2, THEN conjunct2, THEN conjunct2,
              THEN conjunct1]
  note G = T [THEN conjunct2, THEN conjunct2, THEN conjunct2, THEN conjunct2, THEN conjunct2,
              THEN conjunct2]
  have "avgScore (summary exact (Some ?xs)) = 85"
    using mp [OF G h, THEN conjunct1] by (simp only: s f)
  moreover have "total (summary exact (Some ?xs)) = 3" using A by (simp only: s)
  moreover have "drafts (summary exact (Some ?xs)) = 1" using D by (simp only: s)
  moreover have "finals (summary exact (Some ?xs)) = 2" using F by (simp only: s)
  ultimately have "summary exact (Some ?xs)
      = \<lparr> avgScore = 85, total = 3, drafts = 1, finals = 2 \<rparr>"
    by (cases "summary exact (Some ?xs)") simp
  with binary64_exact ne len show ?thesis by (intro conjI)
qed

subsection \<open>The paper filter\<close>

lemma String_includes_sublist: "String_includes s t \<longleftrightarrow> sublist t s"
  by (induction s) (simp_all add: sublist_Cons_right)

lemma toLowerCase_Nil: "toLowerCase [] = []"
  by (simp add: toLowerCase_def)

text \<open>
  C5: a paper is in \<^verbatim>\<open>filteredPapers\<close> exactly when it is one of \<^verbatim>\<open>mockPapers\<close>, the
  lowercased search term occurs in its lowercased student name or subject, and the status
  filter is \<^verbatim>\<open>all\<close> or the paper's status. The result keeps the order of
  \<^verbatim>\<open>mockPapers\<close>, and the empty term with the filter \<^verbatim>\<open>all\<close> selects every paper.
\<close>

theorem filteredPapers_spec:
  "(p \<in> set (filteredPapers searchTerm statusFilter) \<longleftrightarrow>
      p \<in> set mockPapers
      \<and> (sublist (toLowerCase searchTerm) (toLowerCase (paper_studentName p))
         \<or> sublist (toLowerCase searchTerm) (toLowerCase (paper_subject p)))
      \<and> (statusFilter = ''all'' \<or> paper_status p = statusFilter))
   \<and> subseq (filteredPapers searchTerm statusFilter) mockPapers
   \<and> filteredPapers [] ''all'' = mockPapers"
proof (intro conjI)
  show "p \<in> set (filteredPapers searchTerm statusFilter) \<longleftrightarrow>
      p \<in> set mockPapers
      \<and> (sublist (toLowerCase searchTerm) (toLowerCase (paper_studentName p))
         \<or> sublist (toLowerCase searchTerm) (toLowerCase (paper_subject p)))
      \<and> (statusFilter = ''all'' \<or> paper_status p = statusFilter)"
    by (simp add: filteredPapers_def Let_def String_includes_sublist)
  show "subseq (filteredPapers searchTerm statusFilter) mockPapers"
    unfolding filteredPapers_def by (rule subseq_filter_left)
  show "filteredPapers [] ''all'' = mockPapers"
    by (simp add: filteredPapers_def Let_def String_includes_sublist toLowerCase_Nil)
qed



end
